theory Spec2Isabelle
  imports Main "HOL-Library.Char_ord" "HOL-Library.List_Lexorder"
begin

section \<open>Errors and results\<close>

text \<open>
  An error returned by one of the AWS SDK clients. The code of
  \<open>createBucketIfNotExist\<close> asserts \<open>err.(awserr.Error)\<close>: a client error either
  implements that interface, and then has a code, or it does not.
\<close>

datatype sdk_error = AwsError string string | PlainError string

text \<open>Error causes of \<open>strconv.ParseInt\<close> (\<open>strconv.ErrSyntax\<close>, \<open>strconv.ErrRange\<close>).\<close>

datatype num_error = ErrSyntax | ErrRange

text \<open>
  The error values the code builds: \<open>errors.New\<close>, \<open>errors.Wrap\<close> around a cause, a
  client error passed on, and the \<open>*strconv.NumError\<close> of \<open>ParseInt\<close> (function,
  offending input, cause).
\<close>

datatype error =
    New string
  | Wrap error string
  | ClientError sdk_error
  | NumError string string num_error

text \<open>
  What a call does: it returns a value, returns an error, or panics (a nil pointer
  dereference in \<open>bucketPolicy\<close>).
\<close>

datatype 'a res = Ok 'a | Fail error | Panic

section \<open>Scope, clients and library functions\<close>

text \<open>\<open>infrav1.S3Bucket\<close>, with the fields the services and the validator read.\<close>

record S3Bucket =
  Create :: bool
  Name :: string
  ControlPlaneIAMInstanceProfile :: string
  NodesIAMInstanceProfiles :: "string list"

text \<open>What the service asks of \<open>scope.S3Scope\<close>.\<close>

record S3Scope =
  Bucket :: S3Bucket
  Namespace :: string
  KubernetesClusterName :: string

text \<open>What \<open>bootstrapDataKey\<close> asks of a \<open>*scope.MachineScope\<close>: \<open>Role()\<close> and \<open>Name()\<close>.\<close>

record MachineScope =
  Role :: string
  MachineName :: string

type_synonym bytes = "char list"

text \<open>The calls the service issues on its two clients, with the inputs it fills in.\<close>

datatype call =
    S3_CreateBucket string
  | S3_DeleteBucket string
  | S3_PutObject string string bytes
  | S3_DeleteObject string string
  | S3_PutBucketPolicy string string
  | STS_GetCallerIdentity

text \<open>
  The service: its scope and its two clients. A client is opaque; what it answers may
  depend on every call made so far, so it is a function of the call history. The S3
  client answers with an optional error (the service ignores every S3 output), the STS
  client with an error or with an output whose \<open>Account\<close> pointer may be nil.
\<close>

record Service =
  scope :: S3Scope
  S3Client :: "call list \<Rightarrow> call \<Rightarrow> sdk_error option"
  STSClient :: "call list \<Rightarrow> sdk_error + string option"

text \<open>\<open>net/url.URL\<close>, with the fields the code sets.\<close>

record URL =
  Scheme :: string
  Opaque :: string
  Host :: string
  Path :: string

text \<open>A JSON value, as \<open>json.Marshal\<close> sees the maps and slices of \<open>bucketPolicy\<close>.\<close>

datatype json = JString string | JArray "json list" | JObject "(string \<times> json) list"

text \<open>
  The types of \<open>github.com/coreos/ignition/config/v2_2/types\<close> that the ignition package
  fills in. \<open>IgnFile\<close> is \<open>types.File\<close> with its embedded \<open>Node\<close> and \<open>FileEmbedded1\<close>
  flattened; pointers are options. Sections the code never touches are left out.
\<close>

record IgnFile =
  Filesystem :: string
  IgnFile_Path :: string
  Overwrite :: "bool option"
  Append :: bool
  Mode :: "int option"
  Contents_Source :: string

record Storage =
  Storage_Files :: "IgnFile list"

record SystemdDropin =
  SystemdDropin_Name :: string
  SystemdDropin_Contents :: string

record Unit =
  Unit_Name :: string
  Unit_Enabled :: "bool option"
  Unit_Contents :: string
  Unit_Dropins :: "SystemdDropin list"

record Systemd =
  Units :: "Unit list"

record ConfigReference =
  Source :: string

record IgnitionConfig =
  Config_Append :: "ConfigReference list"
  Config_Replace :: "ConfigReference option"

record Ignition =
  Ignition_Config :: IgnitionConfig
  Ignition_Version :: string

record Config =
  Config_Ignition :: Ignition
  Config_Storage :: Storage
  Config_Systemd :: Systemd

text \<open>
  Functions of other packages that the code calls, taken as parameters:
  \<^item> \<open>Base36TruncatedHash\<close>, of this repository's package \<open>pkg/hash\<close>;
  \<^item> \<open>json_Marshal\<close>, \<open>path_Join\<close> of Go's standard library;
  \<^item> \<open>url_hierarchical\<close>: what \<open>(*url.URL).String\<close> of Go's standard library writes for
    a URL with an empty \<open>Opaque\<close> (host and path, escaped);
  \<^item> \<open>parseIPv4\<close>, \<open>parseIPv6\<close> of Go's package \<open>net\<close> (\<open>None\<close> is the nil address);
  \<^item> \<open>validate_fatal\<close>: the report of ignition's \<open>validate.ValidateWithoutSource\<close>,
    as a string, when the report is fatal.
\<close>

record lib =
  Base36TruncatedHash :: "string \<Rightarrow> nat \<Rightarrow> error + string"
  json_Marshal :: "json \<Rightarrow> error + string"
  path_Join :: "string \<Rightarrow> string \<Rightarrow> string"
  url_hierarchical :: "URL \<Rightarrow> string"
  parseIPv4 :: "string \<Rightarrow> bytes option"
  parseIPv6 :: "string \<Rightarrow> bytes option"
  validate_fatal :: "Config \<Rightarrow> string option"

text \<open>
  \<open>(*url.URL).String\<close> for a URL without user, query and fragment: the scheme and a
  colon, then the opaque part as it is when there is one.
\<close>

definition URL_String :: "lib \<Rightarrow> URL \<Rightarrow> string" where
  "URL_String L u =
     (if Opaque u \<noteq> [] then (if Scheme u \<noteq> [] then Scheme u @ '':'' else []) @ Opaque u
      else url_hierarchical L u)"

section \<open>The S3 service (pkg/cloud/services/s3/s3.go)\<close>

text \<open>One call on the S3 client: the client's answer, and the call recorded.\<close>

definition s3call :: "Service \<Rightarrow> call \<Rightarrow> call list \<Rightarrow> sdk_error option \<times> call list" where
  "s3call s c log = (S3Client s log c, log @ [c])"

definition bucketManagementEnabled :: "Service \<Rightarrow> bool" where
  "bucketManagementEnabled s = Create (Bucket (scope s))"

definition s3MaxBucketNameLength :: nat where
  "s3MaxBucketNameLength = 63"

definition bucketName :: "lib \<Rightarrow> Service \<Rightarrow> error + string" where
  "bucketName L s =
     (if Name (Bucket (scope s)) \<noteq> [] then Inr (Name (Bucket (scope s)))
      else
        let name = Namespace (scope s) @ ''-'' @ KubernetesClusterName (scope s) in
        if length name < s3MaxBucketNameLength then Inr name
        else
          let suffix = ''-k8s'' in
          case Base36TruncatedHash L name (s3MaxBucketNameLength - length suffix) of
            Inl err \<Rightarrow> Inl (Wrap err ''unable to create S3 bucket name'')
          | Inr shortName \<Rightarrow> Inr (shortName @ suffix))"

definition bootstrapDataKey :: "lib \<Rightarrow> MachineScope \<Rightarrow> string" where
  "bootstrapDataKey L m = path_Join L (Role m) (MachineName m)"

text \<open>\<open>s3.ErrCodeBucketAlreadyOwnedByYou\<close> of the AWS SDK.\<close>

definition ErrCodeBucketAlreadyOwnedByYou :: string where
  "ErrCodeBucketAlreadyOwnedByYou = ''BucketAlreadyOwnedByYou''"

definition createBucketIfNotExist :: "Service \<Rightarrow> string \<Rightarrow> call list \<Rightarrow> unit res \<times> call list" where
  "createBucketIfNotExist s bucket log =
     (case s3call s (S3_CreateBucket bucket) log of
        (None, log') \<Rightarrow> (Ok (), log')
      | (Some err, log') \<Rightarrow>
          (case err of
             PlainError _ \<Rightarrow> (Fail (Wrap (ClientError err) ''creating S3 bucket''), log')
           | AwsError code _ \<Rightarrow>
               if code = ErrCodeBucketAlreadyOwnedByYou then (Ok (), log')
               else (Fail (Wrap (ClientError err) ''creating S3 bucket''), log')))"

text \<open>The statement of the control plane, and the statement the loop appends for a node profile.\<close>

definition controlPlaneStatement :: "string \<Rightarrow> S3Bucket \<Rightarrow> string \<Rightarrow> json" where
  "controlPlaneStatement account bucket bucketNm =
     JObject
      [(''Sid'', JString ''control-plane''),
       (''Effect'', JString ''Allow''),
       (''Principal'', JObject
          [(''AWS'', JString (''arn:aws:iam::'' @ account @ '':role/''
                               @ ControlPlaneIAMInstanceProfile bucket))]),
       (''Action'', JArray [JString ''s3:GetObject'']),
       (''Resource'', JString (''arn:aws:s3:::'' @ bucketNm @ ''/control-plane/*''))]"

definition nodeStatement :: "string \<Rightarrow> string \<Rightarrow> string \<Rightarrow> json" where
  "nodeStatement account bucketNm iamInstanceProfile =
     JObject
      [(''Sid'', JString iamInstanceProfile),
       (''Effect'', JString ''Allow''),
       (''Principal'', JObject
          [(''AWS'', JString (''arn:aws:iam::'' @ account @ '':role/'' @ iamInstanceProfile))]),
       (''Action'', JArray [JString ''s3:GetObject'']),
       (''Resource'', JString (''arn:aws:s3:::'' @ bucketNm @ ''/node/*''))]"

text \<open>The \<open>statements\<close> slice: the control plane's statement, then the loop's appends.\<close>

definition statements :: "string \<Rightarrow> S3Bucket \<Rightarrow> string \<Rightarrow> json list" where
  "statements account bucket bucketNm =
     foldl (\<lambda>sts iamInstanceProfile. sts @ [nodeStatement account bucketNm iamInstanceProfile])
       [controlPlaneStatement account bucket bucketNm]
       (NodesIAMInstanceProfiles bucket)"

definition policy :: "string \<Rightarrow> S3Bucket \<Rightarrow> string \<Rightarrow> json" where
  "policy account bucket bucketNm =
     JObject
      [(''Version'', JString ''2012-10-17''),
       (''Statement'', JArray (statements account bucket bucketNm))]"

definition bucketPolicy :: "lib \<Rightarrow> Service \<Rightarrow> string \<Rightarrow> call list \<Rightarrow> string res \<times> call list" where
  "bucketPolicy L s bucketNm log =
     (let log' = log @ [STS_GetCallerIdentity] in
      case STSClient s log of
        Inl err \<Rightarrow> (Fail (Wrap (ClientError err) ''getting account ID''), log')
      | Inr None \<Rightarrow> (Panic, log')
      | Inr (Some account) \<Rightarrow>
          (case json_Marshal L (policy account (Bucket (scope s)) bucketNm) of
             Inl err \<Rightarrow> (Fail (Wrap err ''building bucket policy''), log')
           | Inr policyRaw \<Rightarrow> (Ok policyRaw, log')))"

definition ensureBucketPolicy :: "lib \<Rightarrow> Service \<Rightarrow> string \<Rightarrow> call list \<Rightarrow> unit res \<times> call list" where
  "ensureBucketPolicy L s bucketNm log =
     (case bucketPolicy L s bucketNm log of
        (Panic, log') \<Rightarrow> (Panic, log')
      | (Fail err, log') \<Rightarrow> (Fail (Wrap err ''generating Bucket policy''), log')
      | (Ok bucketPol, log') \<Rightarrow>
          (case s3call s (S3_PutBucketPolicy bucketNm bucketPol) log' of
             (Some err, log'') \<Rightarrow> (Fail (Wrap (ClientError err) ''creating S3 bucket policy''), log'')
           | (None, log'') \<Rightarrow> (Ok (), log'')))"

definition ReconcileBucket :: "lib \<Rightarrow> Service \<Rightarrow> call list \<Rightarrow> unit res \<times> call list" where
  "ReconcileBucket L s log =
     (if \<not> bucketManagementEnabled s then (Ok (), log)
      else
        case bucketName L s of
          Inl err \<Rightarrow> (Fail (Wrap err ''generating bucket name''), log)
        | Inr bucketNm \<Rightarrow>
            (case createBucketIfNotExist s bucketNm log of
               (Panic, log') \<Rightarrow> (Panic, log')
             | (Fail err, log') \<Rightarrow> (Fail (Wrap err ''ensuring bucket exists''), log')
             | (Ok _, log') \<Rightarrow>
                 (case ensureBucketPolicy L s bucketNm log' of
                    (Panic, log'') \<Rightarrow> (Panic, log'')
                  | (Fail err, log'') \<Rightarrow> (Fail (Wrap err ''ensuring bucket policy''), log'')
                  | (Ok _, log'') \<Rightarrow> (Ok (), log''))))"

definition DeleteBucket :: "lib \<Rightarrow> Service \<Rightarrow> call list \<Rightarrow> unit res \<times> call list" where
  "DeleteBucket L s log =
     (if \<not> bucketManagementEnabled s then (Ok (), log)
      else
        case bucketName L s of
          Inl err \<Rightarrow> (Fail (Wrap err ''generating bucket name''), log)
        | Inr bucketNm \<Rightarrow>
            (case s3call s (S3_DeleteBucket bucketNm) log of
               (Some err, log') \<Rightarrow> (Fail (Wrap (ClientError err) ''deleting S3 bucket''), log')
             | (None, log') \<Rightarrow> (Ok (), log')))"

text \<open>\<open>Service.Create\<close>; the machine scope is a pointer, \<open>None\<close> when nil.\<close>

definition Service_Create ::
  "lib \<Rightarrow> Service \<Rightarrow> MachineScope option \<Rightarrow> bytes \<Rightarrow> call list \<Rightarrow> string res \<times> call list" where
  "Service_Create L s m data log =
     (if \<not> bucketManagementEnabled s
      then (Fail (New ''requested object creation but bucket management is not enabled''), log)
      else
        case m of
          None \<Rightarrow> (Fail (New ''machine scope can't be nil''), log)
        | Some ms \<Rightarrow>
            (if length data = 0 then (Fail (New ''got empty data''), log)
             else
               (case bucketName L s of
                  Inl err \<Rightarrow> (Fail (Wrap err ''generating bucket name''), log)
                | Inr bucket \<Rightarrow>
                    (let key = bootstrapDataKey L ms in
                     (case s3call s (S3_PutObject bucket key data) log of
                        (Some err, log') \<Rightarrow> (Fail (Wrap (ClientError err) ''putting object''), log')
                      | (None, log') \<Rightarrow>
                          (Ok (URL_String L
                                 \<lparr>Scheme = ''s3'', Opaque = [], Host = bucket, Path = key\<rparr>),
                           log'))))))"

text \<open>\<open>Service.Delete\<close>.\<close>

definition Service_Delete ::
  "lib \<Rightarrow> Service \<Rightarrow> MachineScope option \<Rightarrow> call list \<Rightarrow> unit res \<times> call list" where
  "Service_Delete L s m log =
     (if \<not> bucketManagementEnabled s
      then (Fail (New ''requested object creation but bucket management is not enabled''), log)
      else
        case m of
          None \<Rightarrow> (Fail (New ''machine scope can't be nil''), log)
        | Some ms \<Rightarrow>
            (case bucketName L s of
               Inl err \<Rightarrow> (Fail (Wrap err ''generating bucket name''), log)
             | Inr bucketNm \<Rightarrow>
                 (case s3call s (S3_DeleteObject bucketNm (bootstrapDataKey L ms)) log of
                    (Some err, log') \<Rightarrow> (Fail (Wrap (ClientError err) ''deleting object''), log')
                  | (None, log') \<Rightarrow> (Ok (), log'))))"

section \<open>Standard and third-party functions modelled in full\<close>

text \<open>
  \<open>strconv.ParseUint\<close> for an explicit base from 2 to 36 (no prefix, no underscores): the
  value and the error, as Go returns both. The accumulator is a natural number; Go's
  guard against overflow of the 64-bit accumulator is the test against \<open>cutoff\<close>.
\<close>

definition digitVal :: "char \<Rightarrow> nat option" where
  "digitVal c =
     (let n = (of_char c :: nat) in
      if 48 \<le> n \<and> n \<le> 57 then Some (n - 48)
      else if 97 \<le> n \<and> n \<le> 122 then Some (n - 97 + 10)
      else if 65 \<le> n \<and> n \<le> 90 then Some (n - 65 + 10)
      else None)"

fun ParseUint_loop :: "nat \<Rightarrow> nat \<Rightarrow> string \<Rightarrow> nat \<Rightarrow> nat \<times> num_error option" where
  "ParseUint_loop base maxVal [] n = (n, None)"
| "ParseUint_loop base maxVal (c # cs) n =
     (case digitVal c of
        None \<Rightarrow> (0, Some ErrSyntax)
      | Some d \<Rightarrow>
          if d \<ge> base then (0, Some ErrSyntax)
          else if n \<ge> (2 ^ 64 - 1) div base + 1 then (maxVal, Some ErrRange)
          else if n * base + d > maxVal then (maxVal, Some ErrRange)
          else ParseUint_loop base maxVal cs (n * base + d))"

definition ParseUint :: "string \<Rightarrow> nat \<Rightarrow> nat \<Rightarrow> nat \<times> num_error option" where
  "ParseUint str base bitSize =
     (if str = [] then (0, Some ErrSyntax)
      else ParseUint_loop base (2 ^ bitSize - 1) str 0)"

text \<open>\<open>strconv.ParseInt\<close> for an explicit base and a bit size other than 0.\<close>

definition ParseInt :: "string \<Rightarrow> nat \<Rightarrow> nat \<Rightarrow> error + int" where
  "ParseInt str base bitSize =
     (if str = [] then Inl (NumError ''ParseInt'' str ErrSyntax)
      else
        let neg = (hd str = CHR ''-'');
            rest = (if hd str = CHR ''+'' \<or> hd str = CHR ''-'' then tl str else str);
            (un, err) = ParseUint rest base bitSize;
            cutoff = (2::nat) ^ (bitSize - 1)
        in if err = Some ErrSyntax then Inl (NumError ''ParseInt'' str ErrSyntax)
           else if \<not> neg \<and> un \<ge> cutoff then Inl (NumError ''ParseInt'' str ErrRange)
           else if neg \<and> un > cutoff then Inl (NumError ''ParseInt'' str ErrRange)
           else Inr (if neg then - int un else int un))"

text \<open>
  \<open>dataurl.EscapeString\<close> of \<open>github.com/vincent-petithory/dataurl\<close>: unreserved bytes
  stay, every other byte becomes \<open>%XX\<close> with upper-case hexadecimal digits.
\<close>

definition isUnreserved :: "char \<Rightarrow> bool" where
  "isUnreserved b =
     (let n = (of_char b :: nat) in
      (97 \<le> n \<and> n \<le> 122) \<or> (65 \<le> n \<and> n \<le> 90) \<or> (48 \<le> n \<and> n \<le> 57)
      \<or> b = CHR ''-'' \<or> b = CHR ''_'' \<or> b = CHR ''.'' \<or> b = CHR ''!'' \<or> b = CHR ''~''
      \<or> b = CHR ''*'' \<or> b = CHR 0x27 \<or> b = CHR ''('' \<or> b = CHR '')'')"

definition hexUpper :: "nat \<Rightarrow> char" where
  "hexUpper n = ''0123456789ABCDEF'' ! n"

definition EscapeByte :: "char \<Rightarrow> string" where
  "EscapeByte b =
     (if isUnreserved b then [b]
      else [CHR ''%'', hexUpper (of_char b div 16), hexUpper (of_char b mod 16)])"

definition EscapeString :: "string \<Rightarrow> string" where
  "EscapeString str = concat (map EscapeByte str)"

text \<open>
  Reading an inline data URL back (RFC 2397, no media type, not base64): after the
  prefix \<open>data:,\<close> every \<open>%XX\<close> is one byte and every other byte stands for itself.
\<close>

definition unhex :: "char \<Rightarrow> nat option" where
  "unhex c =
     (let n = (of_char c :: nat) in
      if 48 \<le> n \<and> n \<le> 57 then Some (n - 48)
      else if 65 \<le> n \<and> n \<le> 70 then Some (n - 65 + 10)
      else if 97 \<le> n \<and> n \<le> 102 then Some (n - 97 + 10)
      else None)"

fun Unescape :: "string \<Rightarrow> string option" where
  "Unescape [] = Some []"
| "Unescape (c # cs) =
     (if c = CHR ''%'' then
        (case cs of
           h1 # h0 # rest \<Rightarrow>
             (case (unhex h1, unhex h0) of
                (Some a, Some b) \<Rightarrow> map_option (\<lambda>r. char_of (a * 16 + b) # r) (Unescape rest)
              | _ \<Rightarrow> None)
         | _ \<Rightarrow> None)
      else map_option (\<lambda>r. c # r) (Unescape cs))"

definition decodeDataURL :: "string \<Rightarrow> string option" where
  "decodeDataURL src = (if take 6 src = ''data:,'' then Unescape (drop 6 src) else None)"

text \<open>
  \<open>net.ParseIP\<close>: the first dot or colon of the string decides which parser runs; a
  string with neither is no address.
\<close>

definition ParseIP :: "lib \<Rightarrow> string \<Rightarrow> bytes option" where
  "ParseIP L str =
     (case find (\<lambda>c. c = CHR ''.'' \<or> c = CHR '':'') str of
        None \<Rightarrow> None
      | Some c \<Rightarrow> if c = CHR ''.'' then parseIPv4 L str else parseIPv6 L str)"

section \<open>The ignition package (pkg/cloud/services/s3/ignition)\<close>

text \<open>\<open>v1alpha4.File\<close> of cluster-api, with the fields \<open>getStorage\<close> reads.\<close>

record File =
  File_Path :: string
  File_Permissions :: string
  File_Content :: string

text \<open>A drop-in of a service unit, \<open>ServiceUnit\<close> and \<open>Node\<close> (node.go).\<close>

record Dropin =
  Dropin_Name :: string
  Dropin_Content :: string

record ServiceUnit =
  ServiceUnit_Name :: string
  ServiceUnit_Content :: string
  ServiceUnit_Enabled :: bool
  ServiceUnit_Dropins :: "Dropin list"

record Node =
  Node_Files :: "File list"
  Node_Services :: "ServiceUnit list"
  Node_Version :: string

definition DefaultFileMode :: int where
  "DefaultFileMode = 420"

definition DefaultDirMode :: int where
  "DefaultDirMode = 493"

definition baseIgnitionUri :: "(string \<times> string) list" where
  "baseIgnitionUri =
     [(''v1.15.11'', ''ignition-config/k8s-v1.15.11.ign''),
      (''v1.16.8'', ''ignition-config/k8s-v1.16.8.ign''),
      (''v1.17.4'', ''ignition-config/k8s-v1.17.4.ign'')]"

definition userDataDirName :: string where
  "userDataDirName = ''node-userdata''"

definition KubernetesDefaultVersion :: string where
  "KubernetesDefaultVersion = ''v1.17.4''"

definition IgnitionSchemaVersion :: string where
  "IgnitionSchemaVersion = ''2.2.0''"

text \<open>
  \<open>S3TemplateBackend\<close>: its three strings and its S3 client, a function of the call
  history like the clients of the service.
\<close>

record S3TemplateBackend =
  UserDataDir :: string
  UserDataBucket :: string
  FilePath :: string
  Backend_S3Client :: "call list \<Rightarrow> call \<Rightarrow> sdk_error option"

text \<open>Reading a Go map: the zero value, the empty string, for a key that is not there.\<close>

definition mapIndex :: "(string \<times> string) list \<Rightarrow> string \<Rightarrow> string" where
  "mapIndex m k = (case map_of m k of None \<Rightarrow> [] | Some v \<Rightarrow> v)"

definition getIgnitionBaseConfig :: Config where
  "getIgnitionBaseConfig =
     \<lparr>Config_Ignition =
        \<lparr>Ignition_Config = \<lparr>Config_Append = [], Config_Replace = None\<rparr>,
         Ignition_Version = IgnitionSchemaVersion\<rparr>,
      Config_Storage = \<lparr>Storage_Files = []\<rparr>,
      Config_Systemd = \<lparr>Units = []\<rparr>\<rparr>"

text \<open>
  \<open>getIgnitionConfigTemplate\<close>. The message the code logs for an unknown version has
  no effect on the result and is not modelled.
\<close>

definition getIgnitionConfigTemplate :: "lib \<Rightarrow> S3TemplateBackend \<Rightarrow> Node \<Rightarrow> error + Config" where
  "getIgnitionConfigTemplate L factory node =
     (let templateConfigUri =
            (case map_of baseIgnitionUri (Node_Version node) of
               Some uri \<Rightarrow> uri
             | None \<Rightarrow> mapIndex baseIgnitionUri KubernetesDefaultVersion);
          baseIgnitionUrl =
            \<lparr>Scheme = ''s3'', Opaque = [], Host = UserDataBucket factory, Path = templateConfigUri\<rparr>;
          out = getIgnitionBaseConfig
      in Inr (out\<lparr>Config_Ignition := (Config_Ignition out)
                \<lparr>Ignition_Config :=
                   \<lparr>Config_Append = [\<lparr>Source = URL_String L baseIgnitionUrl\<rparr>],
                    Config_Replace = None\<rparr>\<rparr>\<rparr>))"

text \<open>
  \<open>applyConfig\<close>: \<open>uuid\<close> is the string of the fresh \<open>uuid.New()\<close>. The backend's
  \<open>FilePath\<close> is assigned before the upload, so it changes also when the upload fails.
\<close>

definition applyConfig ::
  "lib \<Rightarrow> S3TemplateBackend \<Rightarrow> string \<Rightarrow> bytes \<Rightarrow> call list
     \<Rightarrow> (error + Config) \<times> S3TemplateBackend \<times> call list" where
  "applyConfig L factory uuid userdata log =
     (let factory' = factory\<lparr>FilePath := userDataDirName @ ''/'' @ uuid\<rparr>;
          c = S3_PutObject (UserDataBucket factory') (FilePath factory') userdata;
          errPut = Backend_S3Client factory' log c;
          log' = log @ [c]
      in case errPut of
           Some _ \<Rightarrow> (Inl (New ''failed to put object to bucket''), factory', log')
         | None \<Rightarrow>
             (let userDataUrl =
                    \<lparr>Scheme = ''s3'', Opaque = [], Host = UserDataBucket factory',
                     Path = FilePath factory'\<rparr>;
                  out = getIgnitionBaseConfig
              in (Inr (out\<lparr>Config_Ignition := (Config_Ignition out)
                         \<lparr>Ignition_Config :=
                            \<lparr>Config_Append = [],
                             Config_Replace = Some \<lparr>Source = URL_String L userDataUrl\<rparr>\<rparr>\<rparr>\<rparr>),
                  factory', log')))"

text \<open>The body of the loop of \<open>getStorage\<close>: the entry for one file, or the parse error.\<close>

definition storageFile :: "lib \<Rightarrow> File \<Rightarrow> error + IgnFile" where
  "storageFile L file =
     (let newFile =
            \<lparr>Filesystem = ''root'', IgnFile_Path = File_Path file, Overwrite = Some True,
             Append = False, Mode = Some DefaultFileMode, Contents_Source = []\<rparr>
      in case (if File_Permissions file \<noteq> [] then
                 (case ParseInt (File_Permissions file) 8 32 of
                    Inl err \<Rightarrow> Inl err
                  | Inr val \<Rightarrow> Inr (newFile\<lparr>Mode := Some val\<rparr>))
               else Inr newFile) of
           Inl err \<Rightarrow> Inl err
         | Inr newFile \<Rightarrow>
             Inr (if File_Content file \<noteq> [] then
                    newFile\<lparr>Contents_Source :=
                      URL_String L \<lparr>Scheme = ''data'',
                                    Opaque = '','' @ EscapeString (File_Content file),
                                    Host = [], Path = []\<rparr>\<rparr>
                  else newFile))"

fun getStorage_loop :: "lib \<Rightarrow> File list \<Rightarrow> Storage \<Rightarrow> error + Storage" where
  "getStorage_loop L [] out = Inr out"
| "getStorage_loop L (file # files) out =
     (case storageFile L file of
        Inl err \<Rightarrow> Inl err
      | Inr newFile \<Rightarrow>
          getStorage_loop L files (out\<lparr>Storage_Files := Storage_Files out @ [newFile]\<rparr>))"

definition getStorage :: "lib \<Rightarrow> File list \<Rightarrow> error + Storage" where
  "getStorage L files = getStorage_loop L files \<lparr>Storage_Files = []\<rparr>"

definition getSystemd :: "ServiceUnit list \<Rightarrow> Systemd" where
  "getSystemd services =
     foldl (\<lambda>out service.
              out\<lparr>Units := Units out @
                [\<lparr>Unit_Name = ServiceUnit_Name service,
                  Unit_Enabled = Some (ServiceUnit_Enabled service),
                  Unit_Contents = ServiceUnit_Content service,
                  Unit_Dropins =
                    foldl (\<lambda>dropins dropIn.
                             dropins @ [\<lparr>SystemdDropin_Name = Dropin_Name dropIn,
                                         SystemdDropin_Contents = Dropin_Content dropIn\<rparr>])
                      [] (ServiceUnit_Dropins service)\<rparr>]\<rparr>)
       \<lparr>Units = []\<rparr> services"

definition BuildIgnitionConfig :: "lib \<Rightarrow> Config \<Rightarrow> Node \<Rightarrow> error + Config" where
  "BuildIgnitionConfig L out node =
     (let out1 = out\<lparr>Config_Systemd := getSystemd (Node_Services node)\<rparr> in
      case getStorage L (Node_Files node) of
        Inl err \<Rightarrow> Inl err
      | Inr storage \<Rightarrow>
          (let out2 = out1\<lparr>Config_Storage := storage\<rparr> in
           case validate_fatal L out2 of
             Some report \<Rightarrow> Inl (New report)
           | None \<Rightarrow> Inr out2))"

definition GenerateUserData :: "lib \<Rightarrow> S3TemplateBackend \<Rightarrow> Node \<Rightarrow> error + Config" where
  "GenerateUserData L dataSource node =
     (case getIgnitionConfigTemplate L dataSource node of
        Inl err \<Rightarrow> Inl err
      | Inr out \<Rightarrow>
          (case BuildIgnitionConfig L out node of
             Inl err \<Rightarrow> Inl err
           | Inr config \<Rightarrow> Inr config))"

section \<open>Validation of the bucket name (api/v1alpha3/validate.go)\<close>

text \<open>\<open>field.Invalid(path, value, detail)\<close>.\<close>

datatype field_error = Invalid "string list" string string

text \<open>
  The three regular expressions of \<open>validateS3BucketName\<close>: a character class matches
  one character, \<open>^\<close> ties the match to the start of the string and \<open>$\<close> to its end.
\<close>

definition isLowerOr1to9 :: "char \<Rightarrow> bool" where
  "isLowerOr1to9 c =
     (let n = (of_char c :: nat) in (97 \<le> n \<and> n \<le> 122) \<or> (49 \<le> n \<and> n \<le> 57))"

definition s3BucketNotAllowedCharacters :: "string \<Rightarrow> bool" where
  "s3BucketNotAllowedCharacters str =
     list_ex (\<lambda>c. \<not> (isLowerOr1to9 c \<or> c = CHR ''.'' \<or> c = CHR ''-'')) str"

definition startsWithNumberOrLetter :: "string \<Rightarrow> bool" where
  "startsWithNumberOrLetter str = (case str of [] \<Rightarrow> False | c # _ \<Rightarrow> isLowerOr1to9 c)"

definition endsWithNumberOrLetter :: "string \<Rightarrow> bool" where
  "endsWithNumberOrLetter str = (case rev str of [] \<Rightarrow> False | c # _ \<Rightarrow> isLowerOr1to9 c)"

definition validateS3BucketName :: "lib \<Rightarrow> string \<Rightarrow> field_error list" where
  "validateS3BucketName L name =
     (let path = [''spec'', ''s3bucket'', ''name''];
          errs = [];
          errs = (if length name < 3 \<or> length name > 63
                  then errs @ [Invalid path name ''must be between 3 and 63 characters long'']
                  else errs);
          errs = (if s3BucketNotAllowedCharacters name
                  then errs @ [Invalid path name
                    ''consist only of lowercase letters, numbers, dots (.), and hyphens (-)'']
                  else errs);
          errs = (if \<not> startsWithNumberOrLetter name \<or> \<not> endsWithNumberOrLetter name
                  then errs @ [Invalid path name ''must begin and end with a letter or number'']
                  else errs);
          errs = (if ParseIP L name \<noteq> None
                  then errs @ [Invalid path name
                    ''must not be formatted as an IP address (for example, 192.168.5.4)'']
                  else errs)
      in errs)"

section \<open>Instances for evaluation\<close>

text \<open>
  Concrete library functions, clients and inputs on which the model is evaluated below.
  The library instances agree with the Go functions on the plain ASCII inputs used here
  (no character that needs escaping, no path element to clean, no address to parse);
  \<open>example_hash\<close> is only some function with base-36 results of the requested width.
\<close>

definition base36_alphabet :: string where
  "base36_alphabet = ''0123456789abcdefghijklmnopqrstuvwxyz''"

definition example_hash :: "string \<Rightarrow> nat \<Rightarrow> error + string" where
  "example_hash str n =
     Inr (take n (map (\<lambda>c. base36_alphabet ! (of_char c mod 36)) str @ replicate n (CHR ''0'')))"

fun intercalate :: "'a list \<Rightarrow> 'a list list \<Rightarrow> 'a list" where
  "intercalate sep [] = []"
| "intercalate sep [x] = x"
| "intercalate sep (x # y # ys) = x @ sep @ intercalate sep (y # ys)"

fun example_render :: "json \<Rightarrow> string" where
  "example_render (JString str) = [CHR 0x22] @ str @ [CHR 0x22]"
| "example_render (JArray js) = ''['' @ intercalate '','' (map example_render js) @ '']''"
| "example_render (JObject kvs) =
     ''{'' @ intercalate '',''
        (map (\<lambda>kv. [CHR 0x22] @ fst kv @ [CHR 0x22] @ '':'' @ example_render (snd kv))
           (sort_key fst kvs)) @ ''}''"

definition example_join :: "string \<Rightarrow> string \<Rightarrow> string" where
  "example_join a b = (if a = [] then b else if b = [] then a else a @ ''/'' @ b)"

definition example_url :: "URL \<Rightarrow> string" where
  "example_url u =
     Scheme u @ ''://'' @ Host u
       @ (if Path u \<noteq> [] \<and> hd (Path u) \<noteq> CHR ''/'' then ''/'' else []) @ Path u"

definition example_lib :: lib where
  "example_lib =
     \<lparr>Base36TruncatedHash = example_hash,
      json_Marshal = (\<lambda>j. Inr (example_render j)),
      path_Join = example_join,
      url_hierarchical = example_url,
      parseIPv4 = (\<lambda>str. None),
      parseIPv6 = (\<lambda>str. None),
      validate_fatal = (\<lambda>config. None)\<rparr>"

definition example_bucket :: S3Bucket where
  "example_bucket =
     \<lparr>Create = True, Name = [], ControlPlaneIAMInstanceProfile = ''cp-role'',
      NodesIAMInstanceProfiles = [''n1-role'', ''n2-role'']\<rparr>"

definition example_scope :: S3Scope where
  "example_scope =
     \<lparr>Bucket = example_bucket, Namespace = ''demo'', KubernetesClusterName = ''cluster1''\<rparr>"

definition example_service :: Service where
  "example_service =
     \<lparr>scope = example_scope,
      S3Client = (\<lambda>history c. None),
      STSClient = (\<lambda>history. Inr (Some ''123456789012''))\<rparr>"

definition disabled_service :: Service where
  "disabled_service =
     example_service\<lparr>scope := example_scope\<lparr>Bucket := example_bucket\<lparr>Create := False\<rparr>\<rparr>\<rparr>"

definition example_machine :: MachineScope where
  "example_machine = \<lparr>Role = ''node'', MachineName = ''machine-0''\<rparr>"

definition example_backend :: S3TemplateBackend where
  "example_backend =
     \<lparr>UserDataDir = ''ignition-userdata-dir'', UserDataBucket = ''ignition-userdata-bucket'',
      FilePath = [], Backend_S3Client = (\<lambda>history c. None)\<rparr>"

definition example_file :: File where
  "example_file = \<lparr>File_Path = ''/etc/foo'', File_Permissions = ''0640'', File_Content = ''bar''\<rparr>"

definition owned_service :: Service where
  "owned_service =
     example_service\<lparr>S3Client :=
       (\<lambda>history c. case c of
          S3_CreateBucket b \<Rightarrow> Some (AwsError ''BucketAlreadyOwnedByYou'' ''already owned'')
        | _ \<Rightarrow> None)\<rparr>"

definition denied_service :: Service where
  "denied_service =
     example_service\<lparr>S3Client :=
       (\<lambda>history c. case c of
          S3_CreateBucket b \<Rightarrow> Some (AwsError ''AccessDenied'' ''Access Denied'')
        | _ \<Rightarrow> None)\<rparr>"

definition named_service :: Service where
  "named_service =
     example_service\<lparr>scope := example_scope\<lparr>Bucket := example_bucket\<lparr>Name := ''my-bucket''\<rparr>\<rparr>\<rparr>"

definition long_service :: Service where
  "long_service =
     example_service\<lparr>scope := example_scope
       \<lparr>Namespace := ''a-rather-long-namespace-name-for-the-team'',
        KubernetesClusterName := ''production-cluster-europe-west-1''\<rparr>\<rparr>"

lemmas example_defs =
  example_lib_def example_service_def disabled_service_def example_scope_def
  example_bucket_def example_machine_def example_join_def example_url_def
  example_backend_def example_file_def owned_service_def denied_service_def
  named_service_def long_service_def

section \<open>Notions used to state the properties\<close>

text \<open>
  The client error is an \<open>awserr.Error\<close> whose code is \<open>BucketAlreadyOwnedByYou\<close>: the one
  case of the switch in \<open>createBucketIfNotExist\<close> that returns nil.
\<close>

definition alreadyOwnedByYou :: "sdk_error \<Rightarrow> bool" where
  "alreadyOwnedByYou e =
     (case e of AwsError code msg \<Rightarrow> code = ''BucketAlreadyOwnedByYou'' | PlainError msg \<Rightarrow> False)"

text \<open>Reading a statement of the policy: its principal and its resource.\<close>

fun field :: "string \<Rightarrow> json \<Rightarrow> json option" where
  "field k (JObject kvs) = map_of kvs k"
| "field k (JString v) = None"
| "field k (JArray vs) = None"

definition statementPrincipal :: "json \<Rightarrow> json option" where
  "statementPrincipal st =
     (case field ''Principal'' st of None \<Rightarrow> None | Some p \<Rightarrow> field ''AWS'' p)"

definition statementResource :: "json \<Rightarrow> json option" where
  "statementResource st = field ''Resource'' st"

definition roleArn :: "string \<Rightarrow> string \<Rightarrow> json" where
  "roleArn account role = JString (''arn:aws:iam::'' @ account @ '':role/'' @ role)"

definition prefixArn :: "string \<Rightarrow> string \<Rightarrow> json" where
  "prefixArn b pre = JString (''arn:aws:s3:::'' @ b @ ''/'' @ pre @ ''/*'')"

text \<open>
  Modelled from the spec: \<open>hash.Base36TruncatedHash\<close> of the package \<open>pkg/hash\<close> is not
  among the sources. The spec describes its result as a fixed-width, base-36 truncated
  hash sized to the length asked for, made of lowercase alphanumerics. \<open>base36_sized n h\<close>
  says that of a result \<open>h\<close> for the length \<open>n\<close>.
\<close>

definition base36_sized :: "nat \<Rightarrow> string \<Rightarrow> bool" where
  "base36_sized n h \<longleftrightarrow> length h = n \<and> list_all (\<lambda>c. c \<in> set base36_alphabet) h"

section \<open>Helper lemmas\<close>

lemma foldl_snoc_map: "foldl (\<lambda>acc p. acc @ [f p]) start ps = start @ map f ps"
  by (induction ps arbitrary: start) simp_all

lemma statements_eq:
  "statements account bucket b =
     controlPlaneStatement account bucket b
       # map (nodeStatement account b) (NodesIAMInstanceProfiles bucket)"
  by (simp add: statements_def foldl_snoc_map)

lemma createBucketIfNotExist_cases:
  "createBucketIfNotExist s b log = (Ok (), log @ [S3_CreateBucket b])
   \<or> (\<exists>err. createBucketIfNotExist s b log = (Fail err, log @ [S3_CreateBucket b]))"
  by (simp add: createBucketIfNotExist_def s3call_def split: option.splits sdk_error.splits)

section \<open>The S3 service: properties\<close>

text \<open>
  C1, as the code has it. When bucket management is disabled (the \<open>Create\<close> flag of the
  bucket is false), \<open>ReconcileBucket\<close> and \<open>DeleteBucket\<close> return success and
  \<open>Service.Create\<close> and \<open>Service.Delete\<close> return the error "requested object creation but
  bucket management is not enabled"; none of the four issues a call on a client (the
  call history is returned unchanged).
\<close>

theorem C1_disabled_short_circuit:
  assumes "\<not> bucketManagementEnabled s"
  shows "ReconcileBucket L s log = (Ok (), log)
       \<and> DeleteBucket L s log = (Ok (), log)
       \<and> Service_Create L s m data log =
           (Fail (New ''requested object creation but bucket management is not enabled''), log)
       \<and> Service_Delete L s m log =
           (Fail (New ''requested object creation but bucket management is not enabled''), log)"
  using assms
  by (simp add: ReconcileBucket_def DeleteBucket_def Service_Create_def Service_Delete_def)

theorem C1_disabled_short_circuit_witness:
  "\<not> bucketManagementEnabled disabled_service
   \<and> ReconcileBucket example_lib disabled_service [] = (Ok (), [])
   \<and> DeleteBucket example_lib disabled_service [] = (Ok (), [])
   \<and> Service_Create example_lib disabled_service (Some example_machine) ''payload'' [] =
        (Fail (New ''requested object creation but bucket management is not enabled''), [])
   \<and> Service_Delete example_lib disabled_service (Some example_machine) [] =
        (Fail (New ''requested object creation but bucket management is not enabled''), [])"
proof -
  have h: "\<not> bucketManagementEnabled disabled_service"
    by (simp add: bucketManagementEnabled_def example_defs)
  show ?thesis
    using h C1_disabled_short_circuit [OF h, of example_lib "[]" "Some example_machine" "''payload''"]
    by simp
qed

text \<open>
  C1 as stated fails: with management disabled, \<open>Service.Create\<close> and \<open>Service.Delete\<close>
  do not return success, they return an error.
\<close>

theorem C1_disabled_put_is_an_error:
  "fst (Service_Create example_lib disabled_service (Some example_machine) ''payload'' []) =
     Fail (New ''requested object creation but bucket management is not enabled'')
   \<and> fst (Service_Delete example_lib disabled_service (Some example_machine) []) =
     Fail (New ''requested object creation but bucket management is not enabled'')"
  by (simp add: Service_Create_def Service_Delete_def bucketManagementEnabled_def example_defs)

text \<open>
  C4, as the code has it. With management enabled, \<open>Service.Create\<close> and \<open>Service.Delete\<close>
  called with a nil machine scope, and \<open>Service.Create\<close> called with an empty payload,
  return an error and issue no call on a client. The machine name is not looked at.
\<close>

theorem C4_nil_scope_and_empty_payload:
  assumes "bucketManagementEnabled s"
  shows "Service_Create L s None data log = (Fail (New ''machine scope can't be nil''), log)
       \<and> Service_Create L s (Some ms) [] log = (Fail (New ''got empty data''), log)
       \<and> Service_Delete L s None log = (Fail (New ''machine scope can't be nil''), log)"
  using assms by (simp add: Service_Create_def Service_Delete_def)

theorem C4_nil_scope_and_empty_payload_witness:
  "bucketManagementEnabled example_service
   \<and> Service_Create example_lib example_service None ''payload'' [] =
       (Fail (New ''machine scope can't be nil''), [])
   \<and> Service_Create example_lib example_service (Some example_machine) [] [] =
       (Fail (New ''got empty data''), [])
   \<and> Service_Delete example_lib example_service None [] =
       (Fail (New ''machine scope can't be nil''), [])"
proof -
  have h: "bucketManagementEnabled example_service"
    by (simp add: bucketManagementEnabled_def example_defs)
  show ?thesis
    using h C4_nil_scope_and_empty_payload [OF h, of example_lib "''payload''" "[]" example_machine]
    by simp
qed

text \<open>
  C4 as stated fails: for a machine scope whose name is empty, \<open>Service.Create\<close> and
  \<open>Service.Delete\<close> succeed and each issues its call on the S3 client.
\<close>

theorem C4_empty_machine_name_reaches_the_store:
  "Service_Create example_lib example_service
       (Some \<lparr>Role = ''node'', MachineName = []\<rparr>) ''payload'' [] =
     (Ok ''s3://demo-cluster1/node'', [S3_PutObject ''demo-cluster1'' ''node'' ''payload''])
   \<and> Service_Delete example_lib example_service (Some \<lparr>Role = ''node'', MachineName = []\<rparr>) [] =
     (Ok (), [S3_DeleteObject ''demo-cluster1'' ''node''])"
  by (simp add: Service_Create_def Service_Delete_def bucketManagementEnabled_def bucketName_def
      s3MaxBucketNameLength_def bootstrapDataKey_def s3call_def URL_String_def Let_def
      example_defs)

text \<open>
  C5. With management enabled and a bucket name derived, let the client answer
  \<open>CreateBucket\<close> with an error \<open>e\<close>. If \<open>e\<close> has the code \<open>BucketAlreadyOwnedByYou\<close>,
  \<open>createBucketIfNotExist\<close> returns success and \<open>ReconcileBucket\<close> goes on to the bucket
  policy: its result is that of \<open>ensureBucketPolicy\<close>, and the identity lookup is the
  next call. For any other \<open>e\<close>, \<open>ReconcileBucket\<close> returns \<open>e\<close> wrapped with
  "creating S3 bucket" and then "ensuring bucket exists", and makes no further call.
\<close>

theorem C5_create_bucket_errors:
  assumes en: "bucketManagementEnabled s"
    and nm: "bucketName L s = Inr b"
    and cr: "S3Client s log (S3_CreateBucket b) = Some e"
  shows "createBucketIfNotExist s b log =
           (if alreadyOwnedByYou e then Ok () else Fail (Wrap (ClientError e) ''creating S3 bucket''),
            log @ [S3_CreateBucket b])
       \<and> ReconcileBucket L s log =
           (if alreadyOwnedByYou e
            then
              (case ensureBucketPolicy L s b (log @ [S3_CreateBucket b]) of
                 (Panic, log') \<Rightarrow> (Panic, log')
               | (Fail err, log') \<Rightarrow> (Fail (Wrap err ''ensuring bucket policy''), log')
               | (Ok u, log') \<Rightarrow> (Ok (), log'))
            else
              (Fail (Wrap (Wrap (ClientError e) ''creating S3 bucket'') ''ensuring bucket exists''),
               log @ [S3_CreateBucket b]))
       \<and> take (length log + 2) (snd (ReconcileBucket L s log)) =
           (if alreadyOwnedByYou e then log @ [S3_CreateBucket b, STS_GetCallerIdentity]
            else log @ [S3_CreateBucket b])"
proof (cases "alreadyOwnedByYou e")
  case True
  then have c: "createBucketIfNotExist s b log = (Ok (), log @ [S3_CreateBucket b])"
    using cr
    by (simp add: createBucketIfNotExist_def s3call_def ErrCodeBucketAlreadyOwnedByYou_def
        alreadyOwnedByYou_def split: sdk_error.splits)
  have r: "ReconcileBucket L s log =
             (case ensureBucketPolicy L s b (log @ [S3_CreateBucket b]) of
                (Panic, log') \<Rightarrow> (Panic, log')
              | (Fail err, log') \<Rightarrow> (Fail (Wrap err ''ensuring bucket policy''), log')
              | (Ok u, log') \<Rightarrow> (Ok (), log'))"
    using en nm c by (simp add: ReconcileBucket_def)
  have l: "take (length log + 2) (snd (ReconcileBucket L s log)) =
             log @ [S3_CreateBucket b, STS_GetCallerIdentity]"
    unfolding r
    by (simp add: ensureBucketPolicy_def bucketPolicy_def s3call_def Let_def
        split: sum.splits option.splits)
  show ?thesis using True c r l by simp
next
  case False
  then have c: "createBucketIfNotExist s b log =
      (Fail (Wrap (ClientError e) ''creating S3 bucket''), log @ [S3_CreateBucket b])"
    using cr
    by (simp add: createBucketIfNotExist_def s3call_def ErrCodeBucketAlreadyOwnedByYou_def
        alreadyOwnedByYou_def split: sdk_error.splits)
  have r: "ReconcileBucket L s log =
      (Fail (Wrap (Wrap (ClientError e) ''creating S3 bucket'') ''ensuring bucket exists''),
       log @ [S3_CreateBucket b])"
    using en nm c by (simp add: ReconcileBucket_def)
  show ?thesis using False c r by simp
qed

theorem C5_create_bucket_errors_witness:
  "bucketManagementEnabled owned_service
   \<and> bucketName example_lib owned_service = Inr ''demo-cluster1''
   \<and> S3Client owned_service [] (S3_CreateBucket ''demo-cluster1'') =
       Some (AwsError ''BucketAlreadyOwnedByYou'' ''already owned'')
   \<and> createBucketIfNotExist owned_service ''demo-cluster1'' [] =
       (Ok (), [S3_CreateBucket ''demo-cluster1''])
   \<and> take 2 (snd (ReconcileBucket example_lib owned_service [])) =
       [S3_CreateBucket ''demo-cluster1'', STS_GetCallerIdentity]
   \<and> bucketManagementEnabled denied_service
   \<and> bucketName example_lib denied_service = Inr ''demo-cluster1''
   \<and> S3Client denied_service [] (S3_CreateBucket ''demo-cluster1'') =
       Some (AwsError ''AccessDenied'' ''Access Denied'')
   \<and> ReconcileBucket example_lib denied_service [] =
       (Fail (Wrap (Wrap (ClientError (AwsError ''AccessDenied'' ''Access Denied''))
                      ''creating S3 bucket'') ''ensuring bucket exists''),
        [S3_CreateBucket ''demo-cluster1''])"
proof -
  have o1: "bucketManagementEnabled owned_service"
    by (simp add: bucketManagementEnabled_def example_defs)
  have o2: "bucketName example_lib owned_service = Inr ''demo-cluster1''"
    by (simp add: bucketName_def s3MaxBucketNameLength_def Let_def example_defs)
  have o3: "S3Client owned_service [] (S3_CreateBucket ''demo-cluster1'') =
       Some (AwsError ''BucketAlreadyOwnedByYou'' ''already owned'')"
    by (simp add: example_defs)
  have d1: "bucketManagementEnabled denied_service"
    by (simp add: bucketManagementEnabled_def example_defs)
  have d2: "bucketName example_lib denied_service = Inr ''demo-cluster1''"
    by (simp add: bucketName_def s3MaxBucketNameLength_def Let_def example_defs)
  have d3: "S3Client denied_service [] (S3_CreateBucket ''demo-cluster1'') =
       Some (AwsError ''AccessDenied'' ''Access Denied'')"
    by (simp add: example_defs)
  have ao: "alreadyOwnedByYou (AwsError ''BucketAlreadyOwnedByYou'' ''already owned'')"
    and ad: "\<not> alreadyOwnedByYou (AwsError ''AccessDenied'' ''Access Denied'')"
    by (simp_all add: alreadyOwnedByYou_def)
  note owned = C5_create_bucket_errors [OF o1 o2 o3]
  note denied = C5_create_bucket_errors [OF d1 d2 d3]
  from conjunct1 [OF owned] ao
  have w1: "createBucketIfNotExist owned_service ''demo-cluster1'' [] =
       (Ok (), [S3_CreateBucket ''demo-cluster1''])"
    by simp
  from conjunct2 [OF conjunct2 [OF owned]] ao
  have w2: "take 2 (snd (ReconcileBucket example_lib owned_service [])) =
       [S3_CreateBucket ''demo-cluster1'', STS_GetCallerIdentity]"
    by (simp add: numeral_2_eq_2)
  from conjunct1 [OF conjunct2 [OF denied]] ad
  have w3: "ReconcileBucket example_lib denied_service [] =
       (Fail (Wrap (Wrap (ClientError (AwsError ''AccessDenied'' ''Access Denied''))
                      ''creating S3 bucket'') ''ensuring bucket exists''),
        [S3_CreateBucket ''demo-cluster1''])"
    by simp
  show ?thesis
    by (intro conjI o1 o2 o3 d1 d2 d3 w1 w2 w3)
qed

text \<open>
  C2. For a bucket with control-plane profile \<open>cp-role\<close> and node profiles \<open>n1-role\<close>,
  \<open>n2-role\<close>, once the identity lookup has returned an account, \<open>bucketPolicy\<close> marshals
  a document with exactly 3 statements: the first names the \<open>cp-role\<close> principal with
  resource \<open>arn:aws:s3:::{bucket}/control-plane/*\<close>, the other two name the node
  principals with resource \<open>arn:aws:s3:::{bucket}/node/*\<close>, and no statement gives a
  principal a resource other than its own role's prefix. For any bucket, the number of
  statements is 1 + the number of node profiles.
\<close>

theorem C2_policy_least_privilege:
  assumes sts: "STSClient s log = Inr (Some account)"
    and cp: "ControlPlaneIAMInstanceProfile (Bucket (scope s)) = ''cp-role''"
    and nodes: "NodesIAMInstanceProfiles (Bucket (scope s)) = [''n1-role'', ''n2-role'']"
  shows "bucketPolicy L s b log =
           ((case json_Marshal L
                    (JObject [(''Version'', JString ''2012-10-17''),
                              (''Statement'', JArray (statements account (Bucket (scope s)) b))]) of
               Inl err \<Rightarrow> Fail (Wrap err ''building bucket policy'')
             | Inr policyRaw \<Rightarrow> Ok policyRaw),
            log @ [STS_GetCallerIdentity])
       \<and> length (statements account (Bucket (scope s)) b) = 3
       \<and> map statementPrincipal (statements account (Bucket (scope s)) b) =
           [Some (roleArn account ''cp-role''), Some (roleArn account ''n1-role''),
            Some (roleArn account ''n2-role'')]
       \<and> map statementResource (statements account (Bucket (scope s)) b) =
           [Some (prefixArn b ''control-plane''), Some (prefixArn b ''node''),
            Some (prefixArn b ''node'')]
       \<and> (\<forall>st \<in> set (statements account (Bucket (scope s)) b).
            (statementPrincipal st = Some (roleArn account ''cp-role'')
               \<longrightarrow> statementResource st = Some (prefixArn b ''control-plane''))
          \<and> (statementPrincipal st \<in> {Some (roleArn account ''n1-role''),
                                         Some (roleArn account ''n2-role'')}
               \<longrightarrow> statementResource st = Some (prefixArn b ''node'')))
       \<and> length (statements account' bucket' b') = 1 + length (NodesIAMInstanceProfiles bucket')"
proof -
  have run: "bucketPolicy L s b log =
           ((case json_Marshal L
                    (JObject [(''Version'', JString ''2012-10-17''),
                              (''Statement'', JArray (statements account (Bucket (scope s)) b))]) of
               Inl err \<Rightarrow> Fail (Wrap err ''building bucket policy'')
             | Inr policyRaw \<Rightarrow> Ok policyRaw),
            log @ [STS_GetCallerIdentity])"
    using sts by (simp add: bucketPolicy_def policy_def Let_def split: sum.splits)
  have sts3: "statements account (Bucket (scope s)) b =
      [controlPlaneStatement account (Bucket (scope s)) b,
       nodeStatement account b ''n1-role'', nodeStatement account b ''n2-role'']"
    by (simp add: statements_eq nodes)
  have len3: "length (statements account (Bucket (scope s)) b) = 3"
    by (simp add: sts3)
  have pr: "map statementPrincipal (statements account (Bucket (scope s)) b) =
           [Some (roleArn account ''cp-role''), Some (roleArn account ''n1-role''),
            Some (roleArn account ''n2-role'')]"
    by (simp add: sts3 controlPlaneStatement_def nodeStatement_def statementPrincipal_def
        roleArn_def cp)
  have rs: "map statementResource (statements account (Bucket (scope s)) b) =
           [Some (prefixArn b ''control-plane''), Some (prefixArn b ''node''),
            Some (prefixArn b ''node'')]"
    by (simp add: sts3 controlPlaneStatement_def nodeStatement_def statementResource_def
        prefixArn_def)
  have iso: "\<forall>st \<in> set (statements account (Bucket (scope s)) b).
            (statementPrincipal st = Some (roleArn account ''cp-role'')
               \<longrightarrow> statementResource st = Some (prefixArn b ''control-plane''))
          \<and> (statementPrincipal st \<in> {Some (roleArn account ''n1-role''),
                                         Some (roleArn account ''n2-role'')}
               \<longrightarrow> statementResource st = Some (prefixArn b ''node''))"
    by (simp add: sts3 controlPlaneStatement_def nodeStatement_def statementResource_def
        statementPrincipal_def roleArn_def prefixArn_def cp)
  have cnt: "length (statements account' bucket' b') = 1 + length (NodesIAMInstanceProfiles bucket')"
    by (simp add: statements_eq)
  show ?thesis
    by (intro conjI run len3 pr rs iso cnt)
qed

theorem C2_policy_least_privilege_witness:
  "STSClient example_service [] = Inr (Some ''123456789012'')
   \<and> ControlPlaneIAMInstanceProfile (Bucket (scope example_service)) = ''cp-role''
   \<and> NodesIAMInstanceProfiles (Bucket (scope example_service)) = [''n1-role'', ''n2-role'']
   \<and> length (statements ''123456789012'' (Bucket (scope example_service)) ''demo-cluster1'') = 3
   \<and> map statementPrincipal
        (statements ''123456789012'' (Bucket (scope example_service)) ''demo-cluster1'') =
       [Some (JString ''arn:aws:iam::123456789012:role/cp-role''),
        Some (JString ''arn:aws:iam::123456789012:role/n1-role''),
        Some (JString ''arn:aws:iam::123456789012:role/n2-role'')]
   \<and> map statementResource
        (statements ''123456789012'' (Bucket (scope example_service)) ''demo-cluster1'') =
       [Some (JString ''arn:aws:s3:::demo-cluster1/control-plane/*''),
        Some (JString ''arn:aws:s3:::demo-cluster1/node/*''),
        Some (JString ''arn:aws:s3:::demo-cluster1/node/*'')]"
proof -
  have h1: "STSClient example_service [] = Inr (Some ''123456789012'')"
    by (simp add: example_defs)
  have h2: "ControlPlaneIAMInstanceProfile (Bucket (scope example_service)) = ''cp-role''"
    by (simp add: example_defs)
  have h3: "NodesIAMInstanceProfiles (Bucket (scope example_service)) = [''n1-role'', ''n2-role'']"
    by (simp add: example_defs)
  note w = C2_policy_least_privilege [OF h1 h2 h3, of example_lib "''demo-cluster1''"]
  have w1: "length (statements ''123456789012'' (Bucket (scope example_service)) ''demo-cluster1'') = 3"
    using w by blast
  have w2: "map statementPrincipal
        (statements ''123456789012'' (Bucket (scope example_service)) ''demo-cluster1'') =
       [Some (JString ''arn:aws:iam::123456789012:role/cp-role''),
        Some (JString ''arn:aws:iam::123456789012:role/n1-role''),
        Some (JString ''arn:aws:iam::123456789012:role/n2-role'')]"
    using conjunct1 [OF conjunct2 [OF conjunct2 [OF w]]] by (simp add: roleArn_def)
  have w3: "map statementResource
        (statements ''123456789012'' (Bucket (scope example_service)) ''demo-cluster1'') =
       [Some (JString ''arn:aws:s3:::demo-cluster1/control-plane/*''),
        Some (JString ''arn:aws:s3:::demo-cluster1/node/*''),
        Some (JString ''arn:aws:s3:::demo-cluster1/node/*'')]"
    using conjunct1 [OF conjunct2 [OF conjunct2 [OF conjunct2 [OF w]]]] by (simp add: prefixArn_def)
  show ?thesis
    by (intro conjI h1 h2 h3 w1 w2 w3)
qed

text \<open>
  C3. \<open>bucketName\<close> depends only on the explicit name, the namespace and the cluster
  name (and on the hash function). It returns the explicit name when that is not empty;
  otherwise the candidate \<open>namespace-clusterName\<close> when that is shorter than 63, so
  \<open>demo-cluster1\<close> for \<open>demo\<close> and \<open>cluster1\<close>; otherwise, when \<open>Base36TruncatedHash\<close>
  returns a base-36 string of the 59 characters asked for, that string followed by
  \<open>-k8s\<close>, of length at most 63.
\<close>

theorem C3_bucketName_derivation:
  "(Name (Bucket (scope s)) \<noteq> [] \<longrightarrow> bucketName L s = Inr (Name (Bucket (scope s))))
   \<and> (Name (Bucket (scope s)) = []
        \<and> length (Namespace (scope s) @ ''-'' @ KubernetesClusterName (scope s)) < 63
      \<longrightarrow> bucketName L s = Inr (Namespace (scope s) @ ''-'' @ KubernetesClusterName (scope s)))
   \<and> (Name (Bucket (scope s)) = [] \<and> Namespace (scope s) = ''demo''
        \<and> KubernetesClusterName (scope s) = ''cluster1''
      \<longrightarrow> bucketName L s = Inr ''demo-cluster1'')
   \<and> (Name (Bucket (scope s)) = []
        \<and> \<not> length (Namespace (scope s) @ ''-'' @ KubernetesClusterName (scope s)) < 63
        \<and> Base36TruncatedHash L
             (Namespace (scope s) @ ''-'' @ KubernetesClusterName (scope s)) 59 = Inr h
        \<and> base36_sized 59 h
      \<longrightarrow> bucketName L s = Inr (h @ ''-k8s'')
          \<and> length (h @ ''-k8s'') \<le> 63
          \<and> drop (length (h @ ''-k8s'') - 4) (h @ ''-k8s'') = ''-k8s''
          \<and> list_all (\<lambda>c. c \<in> set base36_alphabet) (take (length (h @ ''-k8s'') - 4) (h @ ''-k8s'')))
   \<and> (Name (Bucket (scope s)) = Name (Bucket (scope s'))
        \<and> Namespace (scope s) = Namespace (scope s')
        \<and> KubernetesClusterName (scope s) = KubernetesClusterName (scope s')
      \<longrightarrow> bucketName L s = bucketName L s')"
  by (simp add: bucketName_def s3MaxBucketNameLength_def Let_def base36_sized_def)

theorem C3_bucketName_derivation_witness:
  "Name (Bucket (scope named_service)) \<noteq> []
   \<and> bucketName example_lib named_service = Inr ''my-bucket''
   \<and> Name (Bucket (scope example_service)) = []
   \<and> Namespace (scope example_service) = ''demo''
   \<and> KubernetesClusterName (scope example_service) = ''cluster1''
   \<and> length (Namespace (scope example_service) @ ''-''
               @ KubernetesClusterName (scope example_service)) < 63
   \<and> bucketName example_lib example_service = Inr ''demo-cluster1''
   \<and> bucketName example_lib example_service = bucketName example_lib owned_service
   \<and> Name (Bucket (scope long_service)) = []
   \<and> \<not> length (Namespace (scope long_service) @ ''-''
                 @ KubernetesClusterName (scope long_service)) < 63
   \<and> Base36TruncatedHash example_lib
        (Namespace (scope long_service) @ ''-'' @ KubernetesClusterName (scope long_service)) 59 =
       Inr ''p96p8wt69032v92p1t74prt92p1t9u3698wt98tp19463s9r8x329r0978t''
   \<and> base36_sized 59 ''p96p8wt69032v92p1t74prt92p1t9u3698wt98tp19463s9r8x329r0978t''
   \<and> bucketName example_lib long_service =
       Inr ''p96p8wt69032v92p1t74prt92p1t9u3698wt98tp19463s9r8x329r0978t-k8s''"
proof -
  have n1: "Name (Bucket (scope named_service)) \<noteq> []"
    by (simp add: example_defs)
  have n2: "Name (Bucket (scope named_service)) = ''my-bucket''"
    by (simp add: example_defs)
  have e1: "Name (Bucket (scope example_service)) = []"
    and e2: "Namespace (scope example_service) = ''demo''"
    and e3: "KubernetesClusterName (scope example_service) = ''cluster1''"
    by (simp_all add: example_defs)
  have e4: "length (Namespace (scope example_service) @ ''-''
               @ KubernetesClusterName (scope example_service)) < 63"
    by (simp add: e2 e3)
  have o: "Name (Bucket (scope example_service)) = Name (Bucket (scope owned_service))
        \<and> Namespace (scope example_service) = Namespace (scope owned_service)
        \<and> KubernetesClusterName (scope example_service) = KubernetesClusterName (scope owned_service)"
    by (simp add: example_defs)
  have l1: "Name (Bucket (scope long_service)) = []"
    by (simp add: example_defs)
  have l2: "\<not> length (Namespace (scope long_service) @ ''-''
                 @ KubernetesClusterName (scope long_service)) < 63"
    by (simp add: example_defs)
  have l3: "Base36TruncatedHash example_lib
        (Namespace (scope long_service) @ ''-'' @ KubernetesClusterName (scope long_service)) 59 =
       Inr ''p96p8wt69032v92p1t74prt92p1t9u3698wt98tp19463s9r8x329r0978t''"
    unfolding example_defs example_hash_def base36_alphabet_def by code_simp
  have l4: "base36_sized 59 ''p96p8wt69032v92p1t74prt92p1t9u3698wt98tp19463s9r8x329r0978t''"
    unfolding base36_sized_def base36_alphabet_def by code_simp
  note wn = C3_bucketName_derivation [of named_service example_lib]
  note we = C3_bucketName_derivation [of example_service example_lib _ owned_service]
  note wl = C3_bucketName_derivation [of long_service example_lib
      "''p96p8wt69032v92p1t74prt92p1t9u3698wt98tp19463s9r8x329r0978t''"]
  have w1: "bucketName example_lib named_service = Inr ''my-bucket''"
    using wn n1 n2 by simp
  have w2: "bucketName example_lib example_service = Inr ''demo-cluster1''"
    using we e1 e2 e3 by blast
  have w3: "bucketName example_lib example_service = bucketName example_lib owned_service"
    using we o by blast
  have w4: "bucketName example_lib long_service =
       Inr ''p96p8wt69032v92p1t74prt92p1t9u3698wt98tp19463s9r8x329r0978t-k8s''"
    using wl l1 l2 l3 l4 by simp
  show ?thesis
    by (intro conjI n1 w1 e1 e2 e3 e4 w2 w3 l1 l2 l3 l4 w4)
qed

lemma ensureBucketPolicy_Ok:
  assumes "ensureBucketPolicy L s b log = (Ok (), log')"
  shows "\<exists>acc p. STSClient s log = Inr (Some acc)
           \<and> json_Marshal L (policy acc (Bucket (scope s)) b) = Inr p
           \<and> log' = log @ [STS_GetCallerIdentity, S3_PutBucketPolicy b p]"
proof (cases "STSClient s log")
  case (Inl e)
  with assms show ?thesis
    by (simp add: ensureBucketPolicy_def bucketPolicy_def Let_def)
next
  case (Inr a)
  show ?thesis
  proof (cases a)
    case None
    with Inr assms show ?thesis
      by (simp add: ensureBucketPolicy_def bucketPolicy_def Let_def)
  next
    case (Some acc)
    show ?thesis
    proof (cases "json_Marshal L (policy acc (Bucket (scope s)) b)")
      case (Inl e)
      with Inr Some assms show ?thesis
        by (simp add: ensureBucketPolicy_def bucketPolicy_def Let_def)
    next
      case m: (Inr p)
      with Inr Some assms show ?thesis
        by (cases "S3Client s (log @ [STS_GetCallerIdentity]) (S3_PutBucketPolicy b p)")
           (simp_all add: ensureBucketPolicy_def bucketPolicy_def Let_def s3call_def)
    qed
  qed
qed

lemma ReconcileBucket_Ok:
  assumes en: "bucketManagementEnabled s"
    and r: "ReconcileBucket L s log = (Ok (), log')"
  shows "\<exists>b acc p. bucketName L s = Inr b
           \<and> STSClient s (log @ [S3_CreateBucket b]) = Inr (Some acc)
           \<and> json_Marshal L (policy acc (Bucket (scope s)) b) = Inr p
           \<and> log' = log @ [S3_CreateBucket b, STS_GetCallerIdentity, S3_PutBucketPolicy b p]"
proof (cases "bucketName L s")
  case (Inl e)
  with en r show ?thesis by (simp add: ReconcileBucket_def)
next
  case (Inr b)
  from createBucketIfNotExist_cases [of s b log]
  have c: "createBucketIfNotExist s b log = (Ok (), log @ [S3_CreateBucket b])"
  proof
    assume "createBucketIfNotExist s b log = (Ok (), log @ [S3_CreateBucket b])"
    then show ?thesis .
  next
    assume "\<exists>err. createBucketIfNotExist s b log = (Fail err, log @ [S3_CreateBucket b])"
    then obtain err where "createBucketIfNotExist s b log = (Fail err, log @ [S3_CreateBucket b])"
      by blast
    with en r Inr show ?thesis by (simp add: ReconcileBucket_def)
  qed
  obtain x l where x: "ensureBucketPolicy L s b (log @ [S3_CreateBucket b]) = (x, l)"
    by (cases "ensureBucketPolicy L s b (log @ [S3_CreateBucket b])") blast
  with en r Inr c have e: "ensureBucketPolicy L s b (log @ [S3_CreateBucket b]) = (Ok (), log')"
    by (cases x) (simp_all add: ReconcileBucket_def)
  from ensureBucketPolicy_Ok [OF e] Inr show ?thesis by auto
qed

lemma bucketPolicy_depends:
  assumes "Bucket (scope s1) = Bucket (scope s2)"
    and "STSClient s1 log1 = STSClient s2 log2"
  shows "fst (bucketPolicy L s1 b log1) = fst (bucketPolicy L s2 b log2)"
  using assms by (simp add: bucketPolicy_def Let_def split: sum.splits option.splits)

text \<open>
  C6. The policy string is a function of the bucket spec, the bucket name and the
  account the identity lookup returns: two services that agree on the bucket spec,
  whose identity lookups answer alike, get the same result from \<open>bucketPolicy\<close> for the
  same bucket name, whatever else differs (the S3 client, the namespace, the calls
  made before). So when \<open>ReconcileBucket\<close> succeeds twice in a row on a service whose
  identity lookup always answers the same, both runs issue the same three calls, and
  the second attaches the very policy string the first attached.
\<close>

theorem C6_policy_pure_function:
  "(Bucket (scope s1) = Bucket (scope s2) \<and> STSClient s1 log1 = STSClient s2 log2
      \<longrightarrow> fst (bucketPolicy L s1 b log1) = fst (bucketPolicy L s2 b log2))
   \<and> (bucketManagementEnabled s \<and> (\<forall>h h'. STSClient s h = STSClient s h')
       \<and> ReconcileBucket L s l0 = (Ok (), l1) \<and> ReconcileBucket L s l1 = (Ok (), l2)
      \<longrightarrow> (\<exists>bn p. l1 = l0 @ [S3_CreateBucket bn, STS_GetCallerIdentity, S3_PutBucketPolicy bn p]
                \<and> l2 = l1 @ [S3_CreateBucket bn, STS_GetCallerIdentity, S3_PutBucketPolicy bn p]))"
proof (rule conjI)
  show "Bucket (scope s1) = Bucket (scope s2) \<and> STSClient s1 log1 = STSClient s2 log2
      \<longrightarrow> fst (bucketPolicy L s1 b log1) = fst (bucketPolicy L s2 b log2)"
  proof
    assume a: "Bucket (scope s1) = Bucket (scope s2) \<and> STSClient s1 log1 = STSClient s2 log2"
    show "fst (bucketPolicy L s1 b log1) = fst (bucketPolicy L s2 b log2)"
      by (rule bucketPolicy_depends [OF conjunct1 [OF a] conjunct2 [OF a]])
  qed
next
  show "bucketManagementEnabled s \<and> (\<forall>h h'. STSClient s h = STSClient s h')
       \<and> ReconcileBucket L s l0 = (Ok (), l1) \<and> ReconcileBucket L s l1 = (Ok (), l2)
      \<longrightarrow> (\<exists>bn p. l1 = l0 @ [S3_CreateBucket bn, STS_GetCallerIdentity, S3_PutBucketPolicy bn p]
                \<and> l2 = l1 @ [S3_CreateBucket bn, STS_GetCallerIdentity, S3_PutBucketPolicy bn p])"
  proof
    assume a: "bucketManagementEnabled s \<and> (\<forall>h h'. STSClient s h = STSClient s h')
       \<and> ReconcileBucket L s l0 = (Ok (), l1) \<and> ReconcileBucket L s l1 = (Ok (), l2)"
    have en: "bucketManagementEnabled s"
      by (rule conjunct1 [OF a])
    have same: "\<forall>h h'. STSClient s h = STSClient s h'"
      by (rule conjunct1 [OF conjunct2 [OF a]])
    have r1: "ReconcileBucket L s l0 = (Ok (), l1)"
      by (rule conjunct1 [OF conjunct2 [OF conjunct2 [OF a]]])
    have r2: "ReconcileBucket L s l1 = (Ok (), l2)"
      by (rule conjunct2 [OF conjunct2 [OF conjunct2 [OF a]]])
    from ReconcileBucket_Ok [OF en r1] obtain b1 acc1 p1 where
      n1: "bucketName L s = Inr b1"
      and a1: "STSClient s (l0 @ [S3_CreateBucket b1]) = Inr (Some acc1)"
      and m1: "json_Marshal L (policy acc1 (Bucket (scope s)) b1) = Inr p1"
      and g1: "l1 = l0 @ [S3_CreateBucket b1, STS_GetCallerIdentity, S3_PutBucketPolicy b1 p1]"
      by blast
    from ReconcileBucket_Ok [OF en r2] obtain b2 acc2 p2 where
      n2: "bucketName L s = Inr b2"
      and a2: "STSClient s (l1 @ [S3_CreateBucket b2]) = Inr (Some acc2)"
      and m2: "json_Marshal L (policy acc2 (Bucket (scope s)) b2) = Inr p2"
      and g2: "l2 = l1 @ [S3_CreateBucket b2, STS_GetCallerIdentity, S3_PutBucketPolicy b2 p2]"
      by blast
    have b: "b2 = b1"
      using n1 n2 by simp
    have "STSClient s (l0 @ [S3_CreateBucket b1]) = STSClient s (l1 @ [S3_CreateBucket b2])"
      using same by (rule allE) (erule allE)
    then have "Inr (Some acc1) = (Inr (Some acc2) :: sdk_error + string option)"
      by (simp only: a1 a2)
    then have acc: "acc2 = acc1"
      by simp
    have "Inr p2 = (Inr p1 :: error + string)"
      using m1 m2 by (simp only: b acc)
    then have p: "p2 = p1"
      by simp
    have g2': "l2 = l1 @ [S3_CreateBucket b1, STS_GetCallerIdentity, S3_PutBucketPolicy b1 p1]"
      using g2 by (simp only: b p)
    show "\<exists>bn p. l1 = l0 @ [S3_CreateBucket bn, STS_GetCallerIdentity, S3_PutBucketPolicy bn p]
                \<and> l2 = l1 @ [S3_CreateBucket bn, STS_GetCallerIdentity, S3_PutBucketPolicy bn p]"
      by (intro exI conjI) (rule g1, rule g2')
  qed
qed

theorem C6_policy_pure_function_witness:
  "Bucket (scope example_service) = Bucket (scope owned_service)
   \<and> STSClient example_service [] = STSClient owned_service [S3_CreateBucket ''other'']
   \<and> fst (bucketPolicy example_lib example_service ''demo-cluster1'' []) =
       fst (bucketPolicy example_lib owned_service ''demo-cluster1'' [S3_CreateBucket ''other''])
   \<and> bucketManagementEnabled example_service
   \<and> ReconcileBucket example_lib example_service [] =
       (Ok (),
        [S3_CreateBucket ''demo-cluster1'', STS_GetCallerIdentity,
         S3_PutBucketPolicy ''demo-cluster1''
           (example_render (policy ''123456789012'' example_bucket ''demo-cluster1''))])
   \<and> ReconcileBucket example_lib example_service
        [S3_CreateBucket ''demo-cluster1'', STS_GetCallerIdentity,
         S3_PutBucketPolicy ''demo-cluster1''
           (example_render (policy ''123456789012'' example_bucket ''demo-cluster1''))] =
       (Ok (),
        [S3_CreateBucket ''demo-cluster1'', STS_GetCallerIdentity,
         S3_PutBucketPolicy ''demo-cluster1''
           (example_render (policy ''123456789012'' example_bucket ''demo-cluster1'')),
         S3_CreateBucket ''demo-cluster1'', STS_GetCallerIdentity,
         S3_PutBucketPolicy ''demo-cluster1''
           (example_render (policy ''123456789012'' example_bucket ''demo-cluster1''))])"
proof -
  have h1: "Bucket (scope example_service) = Bucket (scope owned_service)"
    by (simp add: example_service_def owned_service_def)
  have h2: "STSClient example_service [] = STSClient owned_service [S3_CreateBucket ''other'']"
    by (simp add: example_service_def owned_service_def)
  have en: "bucketManagementEnabled example_service"
    by (simp add: bucketManagementEnabled_def example_service_def example_scope_def
        example_bucket_def)
  have same: "\<forall>h h'. STSClient example_service h = STSClient example_service h'"
    by (simp add: example_service_def)
  have nm: "bucketName example_lib example_service = Inr ''demo-cluster1''"
    by (simp add: bucketName_def s3MaxBucketNameLength_def Let_def example_service_def
        example_scope_def example_bucket_def)
  have parts: "S3Client example_service = (\<lambda>history c. None)"
    "STSClient example_service = (\<lambda>history. Inr (Some ''123456789012''))"
    "Bucket (scope example_service) = example_bucket"
    "json_Marshal example_lib = (\<lambda>j. Inr (example_render j))"
    by (simp_all add: example_service_def example_scope_def example_lib_def)
  have run: "ReconcileBucket example_lib example_service l =
       (Ok (),
        l @ [S3_CreateBucket ''demo-cluster1'', STS_GetCallerIdentity,
         S3_PutBucketPolicy ''demo-cluster1''
           (example_render (policy ''123456789012'' example_bucket ''demo-cluster1''))])" for l
    by (simp add: ReconcileBucket_def en nm createBucketIfNotExist_def ensureBucketPolicy_def
        bucketPolicy_def s3call_def Let_def parts)
  note w = C6_policy_pure_function [of example_service owned_service "[]"
      "[S3_CreateBucket ''other'']" example_lib "''demo-cluster1''" example_service "[]"]
  have w1: "fst (bucketPolicy example_lib example_service ''demo-cluster1'' []) =
       fst (bucketPolicy example_lib owned_service ''demo-cluster1'' [S3_CreateBucket ''other''])"
    using conjunct1 [OF w] h1 h2 by blast
  have r1: "ReconcileBucket example_lib example_service [] =
       (Ok (),
        [S3_CreateBucket ''demo-cluster1'', STS_GetCallerIdentity,
         S3_PutBucketPolicy ''demo-cluster1''
           (example_render (policy ''123456789012'' example_bucket ''demo-cluster1''))])"
    using run [of "[]"] by (simp only: append_Nil)
  have r2: "ReconcileBucket example_lib example_service
        [S3_CreateBucket ''demo-cluster1'', STS_GetCallerIdentity,
         S3_PutBucketPolicy ''demo-cluster1''
           (example_render (policy ''123456789012'' example_bucket ''demo-cluster1''))] =
       (Ok (),
        [S3_CreateBucket ''demo-cluster1'', STS_GetCallerIdentity,
         S3_PutBucketPolicy ''demo-cluster1''
           (example_render (policy ''123456789012'' example_bucket ''demo-cluster1'')),
         S3_CreateBucket ''demo-cluster1'', STS_GetCallerIdentity,
         S3_PutBucketPolicy ''demo-cluster1''
           (example_render (policy ''123456789012'' example_bucket ''demo-cluster1''))])"
    using run [of "[S3_CreateBucket ''demo-cluster1'', STS_GetCallerIdentity,
         S3_PutBucketPolicy ''demo-cluster1''
           (example_render (policy ''123456789012'' example_bucket ''demo-cluster1''))]"]
    by (simp only: append_Cons append_Nil)
  show ?thesis
    by (intro conjI h1 h2 w1 en r1 r2)
qed

section \<open>The ignition package: properties\<close>

lemma unhex_hexUpper: "k < 16 \<Longrightarrow> unhex (hexUpper k) = Some k"
proof -
  assume "k < 16"
  then have "k = 0 \<or> k = 1 \<or> k = 2 \<or> k = 3 \<or> k = 4 \<or> k = 5 \<or> k = 6 \<or> k = 7
      \<or> k = 8 \<or> k = 9 \<or> k = 10 \<or> k = 11 \<or> k = 12 \<or> k = 13 \<or> k = 14 \<or> k = 15"
    by arith
  then show ?thesis
    by (elim disjE) (simp_all add: unhex_def hexUpper_def)
qed

lemma percent_reserved: "\<not> isUnreserved (CHR ''%'')"
  by (simp add: isUnreserved_def)

lemma Unescape_EscapeByte:
  "Unescape (EscapeByte c @ rest) = map_option (\<lambda>r. c # r) (Unescape rest)"
proof (cases "isUnreserved c")
  case True
  then have "c \<noteq> CHR ''%''"
    using percent_reserved by auto
  with True show ?thesis
    by (simp add: EscapeByte_def)
next
  case False
  have lt: "(of_char c :: nat) < 256"
    by simp
  then have d: "(of_char c :: nat) div 16 < 16"
    by arith
  have m: "(of_char c :: nat) mod 16 < 16"
    by simp
  have again: "char_of ((of_char c :: nat) div 16 * 16 + of_char c mod 16) = c"
    by simp
  from False show ?thesis
    by (simp add: EscapeByte_def unhex_hexUpper [OF d] unhex_hexUpper [OF m] again)
qed

lemma Unescape_EscapeString: "Unescape (EscapeString str) = Some str"
proof (induction str)
  case Nil
  show ?case by (simp add: EscapeString_def)
next
  case (Cons c cs)
  have "EscapeString (c # cs) = EscapeByte c @ EscapeString cs"
    by (simp add: EscapeString_def)
  then show ?case
    using Cons.IH by (simp only: Unescape_EscapeByte) simp
qed

lemma decode_data_source:
  "decodeDataURL (URL_String L \<lparr>Scheme = ''data'', Opaque = CHR '','' # EscapeString content,
                                 Host = [], Path = []\<rparr>) = Some content"
  by (simp add: decodeDataURL_def URL_String_def Unescape_EscapeString)

lemma storageFile_error:
  "isl (storageFile L f)
     \<longleftrightarrow> File_Permissions f \<noteq> [] \<and> isl (ParseInt (File_Permissions f) 8 32)"
  by (simp add: storageFile_def Let_def split: sum.splits)

lemma storageFile_entry:
  assumes "storageFile L f = Inr e"
  shows "Filesystem e = ''root'' \<and> Overwrite e = Some True \<and> Append e = False
       \<and> IgnFile_Path e = File_Path f
       \<and> Mode e = (if File_Permissions f \<noteq> []
                   then (case ParseInt (File_Permissions f) 8 32 of Inr v \<Rightarrow> Some v | Inl err \<Rightarrow> None)
                   else Some DefaultFileMode)
       \<and> (if File_Content f \<noteq> [] then decodeDataURL (Contents_Source e) = Some (File_Content f)
          else Contents_Source e = [])"
proof (cases "File_Permissions f = []")
  case True
  with assms have "e = (if File_Content f \<noteq> [] then
      \<lparr>Filesystem = ''root'', IgnFile_Path = File_Path f, Overwrite = Some True,
       Append = False, Mode = Some DefaultFileMode,
       Contents_Source = URL_String L \<lparr>Scheme = ''data'',
           Opaque = '','' @ EscapeString (File_Content f), Host = [], Path = []\<rparr>\<rparr>
     else
      \<lparr>Filesystem = ''root'', IgnFile_Path = File_Path f, Overwrite = Some True,
       Append = False, Mode = Some DefaultFileMode, Contents_Source = []\<rparr>)"
    by (simp add: storageFile_def Let_def split: if_splits)
  with True show ?thesis
    by (simp add: decode_data_source)
next
  case False
  with assms obtain v where v: "ParseInt (File_Permissions f) 8 32 = Inr v"
    by (cases "ParseInt (File_Permissions f) 8 32") (simp_all add: storageFile_def Let_def)
  with False assms have "e = (if File_Content f \<noteq> [] then
      \<lparr>Filesystem = ''root'', IgnFile_Path = File_Path f, Overwrite = Some True,
       Append = False, Mode = Some v,
       Contents_Source = URL_String L \<lparr>Scheme = ''data'',
           Opaque = '','' @ EscapeString (File_Content f), Host = [], Path = []\<rparr>\<rparr>
     else
      \<lparr>Filesystem = ''root'', IgnFile_Path = File_Path f, Overwrite = Some True,
       Append = False, Mode = Some v, Contents_Source = []\<rparr>)"
    by (simp add: storageFile_def Let_def split: if_splits)
  with False v show ?thesis
    by (simp add: decode_data_source)
qed

lemma getStorage_loop_Inr:
  "getStorage_loop L files out = Inr out' \<Longrightarrow>
     \<exists>es. length es = length files
        \<and> (\<forall>i < length files. storageFile L (files ! i) = Inr (es ! i))
        \<and> Storage_Files out' = Storage_Files out @ es"
proof (induction files arbitrary: out)
  case Nil
  then show ?case by simp
next
  case (Cons f fs)
  from Cons.prems obtain e where e: "storageFile L f = Inr e"
    by (cases "storageFile L f") simp_all
  with Cons.prems
  have "getStorage_loop L fs (out\<lparr>Storage_Files := Storage_Files out @ [e]\<rparr>) = Inr out'"
    by simp
  from Cons.IH [OF this] obtain es where es: "length es = length fs"
    "\<forall>i < length fs. storageFile L (fs ! i) = Inr (es ! i)"
    "Storage_Files out' = Storage_Files out @ [e] @ es"
    by auto
  have "\<forall>i < length (f # fs). storageFile L ((f # fs) ! i) = Inr ((e # es) ! i)"
    using e es(2) by (simp add: nth_Cons split: nat.splits)
  with es(1) es(3) show ?case
    by (intro exI [of _ "e # es"]) simp
qed

lemma getStorage_loop_fails:
  "f \<in> set files \<Longrightarrow> isl (storageFile L f) \<Longrightarrow> isl (getStorage_loop L files out)"
proof (induction files arbitrary: out)
  case Nil
  then show ?case by simp
next
  case (Cons g gs)
  show ?case
  proof (cases "storageFile L g")
    case (Inl err)
    then show ?thesis by simp
  next
    case (Inr e)
    with Cons.prems have "f \<in> set gs"
      by auto
    from Cons.IH [OF this Cons.prems(2)] Inr show ?thesis
      by simp
  qed
qed

lemma getStorage_loop_returns:
  "\<forall>f \<in> set files. \<not> isl (storageFile L f) \<Longrightarrow> \<exists>out'. getStorage_loop L files out = Inr out'"
proof (induction files arbitrary: out)
  case Nil
  then show ?case by simp
next
  case (Cons g gs)
  then obtain e where e: "storageFile L g = Inr e"
    by (cases "storageFile L g") simp_all
  from Cons.prems have "\<forall>f \<in> set gs. \<not> isl (storageFile L f)"
    by simp
  from Cons.IH [OF this] e show ?case
    by simp
qed

lemma getStorage_entries:
  assumes "getStorage L files = Inr out"
  shows "length (Storage_Files out) = length files
       \<and> (\<forall>i < length files. storageFile L (files ! i) = Inr (Storage_Files out ! i))"
proof -
  from assms have "getStorage_loop L files \<lparr>Storage_Files = []\<rparr> = Inr out"
    by (simp add: getStorage_def)
  from getStorage_loop_Inr [OF this] show ?thesis
    by auto
qed

lemma GenerateUserData_storage:
  "GenerateUserData L ds node =
     (case getStorage L (Node_Files node) of
        Inl err \<Rightarrow> Inl err
      | Inr storage \<Rightarrow>
          (case getIgnitionConfigTemplate L ds node of
             Inl err \<Rightarrow> Inl err
           | Inr out \<Rightarrow>
               (case validate_fatal L
                       (out\<lparr>Config_Systemd := getSystemd (Node_Services node),
                            Config_Storage := storage\<rparr>) of
                  Some report \<Rightarrow> Inl (New report)
                | None \<Rightarrow> Inr (out\<lparr>Config_Systemd := getSystemd (Node_Services node),
                                     Config_Storage := storage\<rparr>))))"
  by (simp add: GenerateUserData_def BuildIgnitionConfig_def getIgnitionConfigTemplate_def Let_def
      split: sum.splits option.splits)

lemma ParseInt_0640: "ParseInt ''0640'' 8 32 = Inr 416"
  by (simp add: ParseInt_def ParseUint_def digitVal_def Let_def)

lemma ParseInt_0648: "ParseInt ''0648'' 8 32 = Inl (NumError ''ParseInt'' ''0648'' ErrSyntax)"
  by (simp add: ParseInt_def ParseUint_def digitVal_def Let_def)

lemma EscapeString_bar: "EscapeString ''bar'' = ''bar''"
  by (simp add: EscapeString_def EscapeByte_def isUnreserved_def Let_def)

lemma getStorage_etc_foo:
  "getStorage L [\<lparr>File_Path = ''/etc/foo'', File_Permissions = ''0640'', File_Content = ''bar''\<rparr>] =
     Inr \<lparr>Storage_Files =
           [\<lparr>Filesystem = ''root'', IgnFile_Path = ''/etc/foo'', Overwrite = Some True,
             Append = False, Mode = Some 416, Contents_Source = ''data:,bar''\<rparr>]\<rparr>"
  by (simp add: getStorage_def storageFile_def Let_def ParseInt_0640 EscapeString_bar
      URL_String_def)

text \<open>
  C7. When \<open>getStorage\<close> returns a storage section it has one entry per file, in order;
  the entry's mode is the base-8 parse (\<open>strconv.ParseInt\<close>, base 8, 32 bits) of the
  file's permissions when these are not empty and 0644 (decimal 420) otherwise, and its
  contents source is empty for empty content and otherwise a data URL that decodes to
  the content. \<open>getStorage\<close> does return when every non-empty permissions string
  parses; a file whose permissions do not parse makes \<open>getStorage\<close>, and with it
  \<open>GenerateUserData\<close>, return an error. \<open>0640\<close> parses to 416, and the single file
  \<open>/etc/foo\<close> with content \<open>bar\<close> and permissions \<open>0640\<close> yields exactly one entry, of
  mode 416 and a source that decodes to \<open>bar\<close>, also through \<open>GenerateUserData\<close>.
\<close>

theorem C7_storage_translation:
  "(getStorage L files = Inr out \<longrightarrow>
      length (Storage_Files out) = length files
      \<and> (\<forall>i < length files.
            IgnFile_Path (Storage_Files out ! i) = File_Path (files ! i)
          \<and> (if File_Permissions (files ! i) \<noteq> []
             then \<exists>v. ParseInt (File_Permissions (files ! i)) 8 32 = Inr v
                      \<and> Mode (Storage_Files out ! i) = Some v
             else Mode (Storage_Files out ! i) = Some 420)
          \<and> (if File_Content (files ! i) \<noteq> []
             then decodeDataURL (Contents_Source (Storage_Files out ! i)) =
                    Some (File_Content (files ! i))
             else Contents_Source (Storage_Files out ! i) = [])))
   \<and> ((\<forall>f \<in> set files. File_Permissions f = [] \<or> \<not> isl (ParseInt (File_Permissions f) 8 32))
        \<longrightarrow> (\<exists>storage. getStorage L files = Inr storage))
   \<and> (bad \<in> set files \<and> File_Permissions bad \<noteq> [] \<and> isl (ParseInt (File_Permissions bad) 8 32)
        \<longrightarrow> isl (getStorage L files)
          \<and> isl (GenerateUserData L ds
                    \<lparr>Node_Files = files, Node_Services = services, Node_Version = version\<rparr>))
   \<and> ParseInt ''0640'' 8 32 = Inr 416
   \<and> getStorage L
        [\<lparr>File_Path = ''/etc/foo'', File_Permissions = ''0640'', File_Content = ''bar''\<rparr>] =
       Inr \<lparr>Storage_Files =
             [\<lparr>Filesystem = ''root'', IgnFile_Path = ''/etc/foo'', Overwrite = Some True,
               Append = False, Mode = Some 416, Contents_Source = ''data:,bar''\<rparr>]\<rparr>
   \<and> decodeDataURL ''data:,bar'' = Some ''bar''
   \<and> (GenerateUserData L ds
         \<lparr>Node_Files =
            [\<lparr>File_Path = ''/etc/foo'', File_Permissions = ''0640'', File_Content = ''bar''\<rparr>],
          Node_Services = [], Node_Version = version\<rparr> = Inr config
        \<longrightarrow> Config_Storage config =
             \<lparr>Storage_Files =
                [\<lparr>Filesystem = ''root'', IgnFile_Path = ''/etc/foo'', Overwrite = Some True,
                  Append = False, Mode = Some 416, Contents_Source = ''data:,bar''\<rparr>]\<rparr>)"
proof (intro conjI impI)
  assume ok: "getStorage L files = Inr out"
  show "length (Storage_Files out) = length files"
    using getStorage_entries [OF ok] by simp
  show "\<forall>i < length files.
            IgnFile_Path (Storage_Files out ! i) = File_Path (files ! i)
          \<and> (if File_Permissions (files ! i) \<noteq> []
             then \<exists>v. ParseInt (File_Permissions (files ! i)) 8 32 = Inr v
                      \<and> Mode (Storage_Files out ! i) = Some v
             else Mode (Storage_Files out ! i) = Some 420)
          \<and> (if File_Content (files ! i) \<noteq> []
             then decodeDataURL (Contents_Source (Storage_Files out ! i)) =
                    Some (File_Content (files ! i))
             else Contents_Source (Storage_Files out ! i) = [])"
  proof (intro allI impI)
    fix i
    assume i: "i < length files"
    with getStorage_entries [OF ok]
    have e: "storageFile L (files ! i) = Inr (Storage_Files out ! i)"
      by simp
    then have "\<not> isl (storageFile L (files ! i))"
      by simp
    then have parses: "File_Permissions (files ! i) \<noteq> []
        \<Longrightarrow> \<exists>v. ParseInt (File_Permissions (files ! i)) 8 32 = Inr v"
      by (cases "ParseInt (File_Permissions (files ! i)) 8 32")
         (simp_all add: storageFile_error)
    from storageFile_entry [OF e] parses
    show "IgnFile_Path (Storage_Files out ! i) = File_Path (files ! i)
          \<and> (if File_Permissions (files ! i) \<noteq> []
             then \<exists>v. ParseInt (File_Permissions (files ! i)) 8 32 = Inr v
                      \<and> Mode (Storage_Files out ! i) = Some v
             else Mode (Storage_Files out ! i) = Some 420)
          \<and> (if File_Content (files ! i) \<noteq> []
             then decodeDataURL (Contents_Source (Storage_Files out ! i)) =
                    Some (File_Content (files ! i))
             else Contents_Source (Storage_Files out ! i) = [])"
      by (auto simp: DefaultFileMode_def)
  qed
next
  assume "\<forall>f \<in> set files. File_Permissions f = [] \<or> \<not> isl (ParseInt (File_Permissions f) 8 32)"
  then have "\<forall>f \<in> set files. \<not> isl (storageFile L f)"
    by (simp add: storageFile_error)
  from getStorage_loop_returns [OF this]
  show "\<exists>storage. getStorage L files = Inr storage"
    by (simp add: getStorage_def)
next
  assume b: "bad \<in> set files \<and> File_Permissions bad \<noteq> []
      \<and> isl (ParseInt (File_Permissions bad) 8 32)"
  then have "isl (storageFile L bad)"
    by (simp add: storageFile_error)
  from getStorage_loop_fails [OF conjunct1 [OF b] this]
  show fails: "isl (getStorage L files)"
    by (simp add: getStorage_def)
  then show "isl (GenerateUserData L ds
                    \<lparr>Node_Files = files, Node_Services = services, Node_Version = version\<rparr>)"
    by (cases "getStorage L files") (simp_all add: GenerateUserData_storage)
next
  show "ParseInt ''0640'' 8 32 = Inr 416"
    by (rule ParseInt_0640)
next
  show "getStorage L
        [\<lparr>File_Path = ''/etc/foo'', File_Permissions = ''0640'', File_Content = ''bar''\<rparr>] =
       Inr \<lparr>Storage_Files =
             [\<lparr>Filesystem = ''root'', IgnFile_Path = ''/etc/foo'', Overwrite = Some True,
               Append = False, Mode = Some 416, Contents_Source = ''data:,bar''\<rparr>]\<rparr>"
    by (rule getStorage_etc_foo)
next
  show "decodeDataURL ''data:,bar'' = Some ''bar''"
    by (simp add: decodeDataURL_def)
next
  assume "GenerateUserData L ds
         \<lparr>Node_Files =
            [\<lparr>File_Path = ''/etc/foo'', File_Permissions = ''0640'', File_Content = ''bar''\<rparr>],
          Node_Services = [], Node_Version = version\<rparr> = Inr config"
  then show "Config_Storage config =
             \<lparr>Storage_Files =
                [\<lparr>Filesystem = ''root'', IgnFile_Path = ''/etc/foo'', Overwrite = Some True,
                  Append = False, Mode = Some 416, Contents_Source = ''data:,bar''\<rparr>]\<rparr>"
    by (auto simp: GenerateUserData_storage getStorage_etc_foo getIgnitionConfigTemplate_def
        Let_def split: option.splits)
qed

theorem C7_storage_translation_witness:
  "getStorage example_lib [example_file] =
     Inr \<lparr>Storage_Files =
           [\<lparr>Filesystem = ''root'', IgnFile_Path = ''/etc/foo'', Overwrite = Some True,
             Append = False, Mode = Some 416, Contents_Source = ''data:,bar''\<rparr>]\<rparr>
   \<and> length [example_file] = 1
   \<and> File_Permissions example_file \<noteq> []
   \<and> ParseInt (File_Permissions example_file) 8 32 = Inr 416
   \<and> File_Content example_file \<noteq> []
   \<and> decodeDataURL ''data:,bar'' = Some (File_Content example_file)
   \<and> \<lparr>File_Path = ''/etc/bad'', File_Permissions = ''0648'', File_Content = []\<rparr>
       \<in> set [\<lparr>File_Path = ''/etc/bad'', File_Permissions = ''0648'', File_Content = []\<rparr>]
   \<and> isl (ParseInt ''0648'' 8 32)
   \<and> isl (getStorage example_lib
             [\<lparr>File_Path = ''/etc/bad'', File_Permissions = ''0648'', File_Content = []\<rparr>])
   \<and> GenerateUserData example_lib example_backend
        \<lparr>Node_Files = [example_file], Node_Services = [], Node_Version = ''v1.16.8''\<rparr> =
       Inr \<lparr>Config_Ignition =
             \<lparr>Ignition_Config =
                \<lparr>Config_Append =
                   [\<lparr>Source = ''s3://ignition-userdata-bucket/ignition-config/k8s-v1.16.8.ign''\<rparr>],
                 Config_Replace = None\<rparr>,
              Ignition_Version = ''2.2.0''\<rparr>,
            Config_Storage =
              \<lparr>Storage_Files =
                 [\<lparr>Filesystem = ''root'', IgnFile_Path = ''/etc/foo'', Overwrite = Some True,
                   Append = False, Mode = Some 416, Contents_Source = ''data:,bar''\<rparr>]\<rparr>,
            Config_Systemd = \<lparr>Units = []\<rparr>\<rparr>"
proof -
  note good = C7_storage_translation [of example_lib "[example_file]"
      "\<lparr>Storage_Files =
           [\<lparr>Filesystem = ''root'', IgnFile_Path = ''/etc/foo'', Overwrite = Some True,
             Append = False, Mode = Some 416, Contents_Source = ''data:,bar''\<rparr>]\<rparr>"]
  note bad = C7_storage_translation [of example_lib
      "[\<lparr>File_Path = ''/etc/bad'', File_Permissions = ''0648'', File_Content = []\<rparr>]" _
      "\<lparr>File_Path = ''/etc/bad'', File_Permissions = ''0648'', File_Content = []\<rparr>"]
  have g1: "getStorage example_lib [example_file] =
     Inr \<lparr>Storage_Files =
           [\<lparr>Filesystem = ''root'', IgnFile_Path = ''/etc/foo'', Overwrite = Some True,
             Append = False, Mode = Some 416, Contents_Source = ''data:,bar''\<rparr>]\<rparr>"
    using good by (simp add: example_file_def)
  have g2: "ParseInt (File_Permissions example_file) 8 32 = Inr 416"
    using good by (simp add: example_file_def)
  have g3: "decodeDataURL ''data:,bar'' = Some (File_Content example_file)"
    using good by (simp add: example_file_def)
  have b1: "isl (ParseInt ''0648'' 8 32)"
    by (simp add: ParseInt_def ParseUint_def digitVal_def Let_def)
  have b2: "isl (getStorage example_lib
             [\<lparr>File_Path = ''/etc/bad'', File_Permissions = ''0648'', File_Content = []\<rparr>])"
    using bad b1 by simp
  have parts: "validate_fatal example_lib = (\<lambda>config. None)"
    "url_hierarchical example_lib = example_url"
    "UserDataBucket example_backend = ''ignition-userdata-bucket''"
    by (simp_all add: example_lib_def example_backend_def)
  have u: "GenerateUserData example_lib example_backend
        \<lparr>Node_Files = [example_file], Node_Services = [], Node_Version = ''v1.16.8''\<rparr> =
       Inr \<lparr>Config_Ignition =
             \<lparr>Ignition_Config =
                \<lparr>Config_Append =
                   [\<lparr>Source = ''s3://ignition-userdata-bucket/ignition-config/k8s-v1.16.8.ign''\<rparr>],
                 Config_Replace = None\<rparr>,
              Ignition_Version = ''2.2.0''\<rparr>,
            Config_Storage =
              \<lparr>Storage_Files =
                 [\<lparr>Filesystem = ''root'', IgnFile_Path = ''/etc/foo'', Overwrite = Some True,
                   Append = False, Mode = Some 416, Contents_Source = ''data:,bar''\<rparr>]\<rparr>,
            Config_Systemd = \<lparr>Units = []\<rparr>\<rparr>"
    by (simp add: GenerateUserData_storage g1 getIgnitionConfigTemplate_def
        getIgnitionBaseConfig_def getSystemd_def baseIgnitionUri_def URL_String_def
        IgnitionSchemaVersion_def Let_def parts example_url_def)
  show ?thesis
    by (intro conjI g1 g2 g3 b1 b2 u) (simp_all add: example_file_def)
qed

text \<open>
  C9. \<open>getIgnitionConfigTemplate\<close> never returns an error. For a version that is a key
  of \<open>baseIgnitionUri\<close> the append reference it returns is the URL of the bucket with
  that version's template path; for any other version it is the URL with the template
  path of the default version \<open>v1.17.4\<close>, \<open>ignition-config/k8s-v1.17.4.ign\<close>.
\<close>

theorem C9_template_fallback:
  "(map_of baseIgnitionUri (Node_Version node) = Some uri \<longrightarrow>
      getIgnitionConfigTemplate L factory node =
        Inr \<lparr>Config_Ignition =
              \<lparr>Ignition_Config =
                 \<lparr>Config_Append =
                    [\<lparr>Source = URL_String L \<lparr>Scheme = ''s3'', Opaque = [],
                                               Host = UserDataBucket factory, Path = uri\<rparr>\<rparr>],
                  Config_Replace = None\<rparr>,
               Ignition_Version = ''2.2.0''\<rparr>,
             Config_Storage = \<lparr>Storage_Files = []\<rparr>,
             Config_Systemd = \<lparr>Units = []\<rparr>\<rparr>)
   \<and> (Node_Version node \<notin> {''v1.15.11'', ''v1.16.8'', ''v1.17.4''} \<longrightarrow>
      getIgnitionConfigTemplate L factory node =
        Inr \<lparr>Config_Ignition =
              \<lparr>Ignition_Config =
                 \<lparr>Config_Append =
                    [\<lparr>Source = URL_String L \<lparr>Scheme = ''s3'', Opaque = [],
                                               Host = UserDataBucket factory,
                                               Path = ''ignition-config/k8s-v1.17.4.ign''\<rparr>\<rparr>],
                  Config_Replace = None\<rparr>,
               Ignition_Version = ''2.2.0''\<rparr>,
             Config_Storage = \<lparr>Storage_Files = []\<rparr>,
             Config_Systemd = \<lparr>Units = []\<rparr>\<rparr>)
   \<and> \<not> isl (getIgnitionConfigTemplate L factory node)
   \<and> fst ` set baseIgnitionUri = {''v1.15.11'', ''v1.16.8'', ''v1.17.4''}
   \<and> map_of baseIgnitionUri KubernetesDefaultVersion = Some ''ignition-config/k8s-v1.17.4.ign''"
proof (intro conjI impI)
  assume "map_of baseIgnitionUri (Node_Version node) = Some uri"
  then show "getIgnitionConfigTemplate L factory node =
        Inr \<lparr>Config_Ignition =
              \<lparr>Ignition_Config =
                 \<lparr>Config_Append =
                    [\<lparr>Source = URL_String L \<lparr>Scheme = ''s3'', Opaque = [],
                                               Host = UserDataBucket factory, Path = uri\<rparr>\<rparr>],
                  Config_Replace = None\<rparr>,
               Ignition_Version = ''2.2.0''\<rparr>,
             Config_Storage = \<lparr>Storage_Files = []\<rparr>,
             Config_Systemd = \<lparr>Units = []\<rparr>\<rparr>"
    by (simp add: getIgnitionConfigTemplate_def getIgnitionBaseConfig_def
        IgnitionSchemaVersion_def Let_def)
next
  assume "Node_Version node \<notin> {''v1.15.11'', ''v1.16.8'', ''v1.17.4''}"
  then have "map_of baseIgnitionUri (Node_Version node) = None"
    by (simp add: baseIgnitionUri_def)
  then show "getIgnitionConfigTemplate L factory node =
        Inr \<lparr>Config_Ignition =
              \<lparr>Ignition_Config =
                 \<lparr>Config_Append =
                    [\<lparr>Source = URL_String L \<lparr>Scheme = ''s3'', Opaque = [],
                                               Host = UserDataBucket factory,
                                               Path = ''ignition-config/k8s-v1.17.4.ign''\<rparr>\<rparr>],
                  Config_Replace = None\<rparr>,
               Ignition_Version = ''2.2.0''\<rparr>,
             Config_Storage = \<lparr>Storage_Files = []\<rparr>,
             Config_Systemd = \<lparr>Units = []\<rparr>\<rparr>"
    by (simp add: getIgnitionConfigTemplate_def getIgnitionBaseConfig_def
        IgnitionSchemaVersion_def Let_def mapIndex_def KubernetesDefaultVersion_def)
       (simp add: baseIgnitionUri_def)
next
  show "\<not> isl (getIgnitionConfigTemplate L factory node)"
    by (simp add: getIgnitionConfigTemplate_def Let_def)
next
  show "fst ` set baseIgnitionUri = {''v1.15.11'', ''v1.16.8'', ''v1.17.4''}"
    by (simp add: baseIgnitionUri_def)
next
  show "map_of baseIgnitionUri KubernetesDefaultVersion = Some ''ignition-config/k8s-v1.17.4.ign''"
    by (simp add: baseIgnitionUri_def KubernetesDefaultVersion_def)
qed

theorem C9_template_fallback_witness:
  "map_of baseIgnitionUri ''v1.16.8'' = Some ''ignition-config/k8s-v1.16.8.ign''
   \<and> getIgnitionConfigTemplate example_lib example_backend
        \<lparr>Node_Files = [], Node_Services = [], Node_Version = ''v1.16.8''\<rparr> =
       Inr \<lparr>Config_Ignition =
             \<lparr>Ignition_Config =
                \<lparr>Config_Append =
                   [\<lparr>Source = ''s3://ignition-userdata-bucket/ignition-config/k8s-v1.16.8.ign''\<rparr>],
                 Config_Replace = None\<rparr>,
              Ignition_Version = ''2.2.0''\<rparr>,
            Config_Storage = \<lparr>Storage_Files = []\<rparr>,
            Config_Systemd = \<lparr>Units = []\<rparr>\<rparr>
   \<and> ''v1.20.0'' \<notin> {''v1.15.11'', ''v1.16.8'', ''v1.17.4''}
   \<and> getIgnitionConfigTemplate example_lib example_backend
        \<lparr>Node_Files = [], Node_Services = [], Node_Version = ''v1.20.0''\<rparr> =
       Inr \<lparr>Config_Ignition =
             \<lparr>Ignition_Config =
                \<lparr>Config_Append =
                   [\<lparr>Source = ''s3://ignition-userdata-bucket/ignition-config/k8s-v1.17.4.ign''\<rparr>],
                 Config_Replace = None\<rparr>,
              Ignition_Version = ''2.2.0''\<rparr>,
            Config_Storage = \<lparr>Storage_Files = []\<rparr>,
            Config_Systemd = \<lparr>Units = []\<rparr>\<rparr>"
proof -
  have k: "map_of baseIgnitionUri ''v1.16.8'' = Some ''ignition-config/k8s-v1.16.8.ign''"
    by (simp add: baseIgnitionUri_def)
  have u: "''v1.20.0'' \<notin> {''v1.15.11'', ''v1.16.8'', ''v1.17.4''}"
    by simp
  have url: "URL_String example_lib
       \<lparr>Scheme = ''s3'', Opaque = [], Host = UserDataBucket example_backend, Path = p\<rparr> =
     ''s3://ignition-userdata-bucket'' @
       (if p \<noteq> [] \<and> hd p \<noteq> CHR ''/'' then ''/'' else []) @ p" for p
    by (simp add: URL_String_def example_lib_def example_url_def example_backend_def)
  note known = C9_template_fallback [of
      "\<lparr>Node_Files = [], Node_Services = [], Node_Version = ''v1.16.8''\<rparr>"
      "''ignition-config/k8s-v1.16.8.ign''" example_lib example_backend]
  note unknown = C9_template_fallback [of
      "\<lparr>Node_Files = [], Node_Services = [], Node_Version = ''v1.20.0''\<rparr>" _
      example_lib example_backend]
  have w1: "getIgnitionConfigTemplate example_lib example_backend
        \<lparr>Node_Files = [], Node_Services = [], Node_Version = ''v1.16.8''\<rparr> =
       Inr \<lparr>Config_Ignition =
             \<lparr>Ignition_Config =
                \<lparr>Config_Append =
                   [\<lparr>Source = ''s3://ignition-userdata-bucket/ignition-config/k8s-v1.16.8.ign''\<rparr>],
                 Config_Replace = None\<rparr>,
              Ignition_Version = ''2.2.0''\<rparr>,
            Config_Storage = \<lparr>Storage_Files = []\<rparr>,
            Config_Systemd = \<lparr>Units = []\<rparr>\<rparr>"
    using conjunct1 [OF known] k by (simp add: url)
  have w2: "getIgnitionConfigTemplate example_lib example_backend
        \<lparr>Node_Files = [], Node_Services = [], Node_Version = ''v1.20.0''\<rparr> =
       Inr \<lparr>Config_Ignition =
             \<lparr>Ignition_Config =
                \<lparr>Config_Append =
                   [\<lparr>Source = ''s3://ignition-userdata-bucket/ignition-config/k8s-v1.17.4.ign''\<rparr>],
                 Config_Replace = None\<rparr>,
              Ignition_Version = ''2.2.0''\<rparr>,
            Config_Storage = \<lparr>Storage_Files = []\<rparr>,
            Config_Systemd = \<lparr>Units = []\<rparr>\<rparr>"
    using conjunct1 [OF conjunct2 [OF unknown]] u by (simp add: url)
  show ?thesis
    by (intro conjI k u w1 w2)
qed

text \<open>
  C10. Every entry \<open>getStorage\<close> produces has filesystem \<open>root\<close>, overwrite set to true
  and append false, whatever the files are; and every configuration the package
  produces carries the schema version \<open>2.2.0\<close>: the base configuration, the template of
  \<open>getIgnitionConfigTemplate\<close>, the result of \<open>applyConfig\<close> and the result of
  \<open>GenerateUserData\<close>.
\<close>

theorem C10_fixed_fields:
  "(getStorage L files = Inr out \<longrightarrow>
      (\<forall>e \<in> set (Storage_Files out).
         Filesystem e = ''root'' \<and> Overwrite e = Some True \<and> Append e = False))
   \<and> Ignition_Version (Config_Ignition getIgnitionBaseConfig) = ''2.2.0''
   \<and> (getIgnitionConfigTemplate L factory node = Inr template \<longrightarrow>
        Ignition_Version (Config_Ignition template) = ''2.2.0'')
   \<and> (fst (applyConfig L factory uuid userdata log) = Inr applied \<longrightarrow>
        Ignition_Version (Config_Ignition applied) = ''2.2.0'')
   \<and> (GenerateUserData L factory node = Inr config \<longrightarrow>
        Ignition_Version (Config_Ignition config) = ''2.2.0''
        \<and> (\<forall>e \<in> set (Storage_Files (Config_Storage config)).
              Filesystem e = ''root'' \<and> Overwrite e = Some True \<and> Append e = False))"
proof (intro conjI impI)
  assume ok: "getStorage L files = Inr out"
  show "\<forall>e \<in> set (Storage_Files out).
         Filesystem e = ''root'' \<and> Overwrite e = Some True \<and> Append e = False"
  proof
    fix e
    assume "e \<in> set (Storage_Files out)"
    then obtain i where i: "i < length (Storage_Files out)" "e = Storage_Files out ! i"
      by (auto simp: in_set_conv_nth)
    with getStorage_entries [OF ok] have "storageFile L (files ! i) = Inr e"
      by simp
    from storageFile_entry [OF this]
    show "Filesystem e = ''root'' \<and> Overwrite e = Some True \<and> Append e = False"
      by simp
  qed
next
  show "Ignition_Version (Config_Ignition getIgnitionBaseConfig) = ''2.2.0''"
    by (simp add: getIgnitionBaseConfig_def IgnitionSchemaVersion_def)
next
  assume "getIgnitionConfigTemplate L factory node = Inr template"
  then show "Ignition_Version (Config_Ignition template) = ''2.2.0''"
    by (auto simp: getIgnitionConfigTemplate_def getIgnitionBaseConfig_def
        IgnitionSchemaVersion_def Let_def)
next
  assume "fst (applyConfig L factory uuid userdata log) = Inr applied"
  then show "Ignition_Version (Config_Ignition applied) = ''2.2.0''"
    by (auto simp: applyConfig_def getIgnitionBaseConfig_def IgnitionSchemaVersion_def Let_def
        split: option.splits)
next
  assume g: "GenerateUserData L factory node = Inr config"
  then obtain storage where st: "getStorage L (Node_Files node) = Inr storage"
    by (cases "getStorage L (Node_Files node)") (simp_all add: GenerateUserData_storage)
  obtain template where t: "getIgnitionConfigTemplate L factory node = Inr template"
    by (simp add: getIgnitionConfigTemplate_def Let_def)
  from g st t
  have c: "config = template\<lparr>Config_Systemd := getSystemd (Node_Services node),
                              Config_Storage := storage\<rparr>"
    by (simp add: GenerateUserData_storage split: option.splits)
  from t have v: "Ignition_Version (Config_Ignition template) = ''2.2.0''"
    by (auto simp: getIgnitionConfigTemplate_def getIgnitionBaseConfig_def
        IgnitionSchemaVersion_def Let_def)
  show "Ignition_Version (Config_Ignition config) = ''2.2.0''"
    using c v by simp
  show "\<forall>e \<in> set (Storage_Files (Config_Storage config)).
              Filesystem e = ''root'' \<and> Overwrite e = Some True \<and> Append e = False"
  proof
    fix e
    assume "e \<in> set (Storage_Files (Config_Storage config))"
    with c have "e \<in> set (Storage_Files storage)"
      by simp
    then obtain i where i: "i < length (Storage_Files storage)" "e = Storage_Files storage ! i"
      by (auto simp: in_set_conv_nth)
    with getStorage_entries [OF st] have "storageFile L (Node_Files node ! i) = Inr e"
      by simp
    from storageFile_entry [OF this]
    show "Filesystem e = ''root'' \<and> Overwrite e = Some True \<and> Append e = False"
      by simp
  qed
qed

theorem C10_fixed_fields_witness:
  "getStorage example_lib [example_file] =
     Inr \<lparr>Storage_Files =
           [\<lparr>Filesystem = ''root'', IgnFile_Path = ''/etc/foo'', Overwrite = Some True,
             Append = False, Mode = Some 416, Contents_Source = ''data:,bar''\<rparr>]\<rparr>
   \<and> list_all (\<lambda>e. Filesystem e = ''root'' \<and> Overwrite e = Some True \<and> Append e = False)
        [\<lparr>Filesystem = ''root'', IgnFile_Path = ''/etc/foo'', Overwrite = Some True,
          Append = False, Mode = Some 416, Contents_Source = ''data:,bar''\<rparr>]
   \<and> fst (applyConfig example_lib example_backend ''uuid-0001'' ''payload'' []) =
       Inr \<lparr>Config_Ignition =
             \<lparr>Ignition_Config =
                \<lparr>Config_Append = [],
                 Config_Replace =
                   Some \<lparr>Source = ''s3://ignition-userdata-bucket/node-userdata/uuid-0001''\<rparr>\<rparr>,
              Ignition_Version = ''2.2.0''\<rparr>,
            Config_Storage = \<lparr>Storage_Files = []\<rparr>,
            Config_Systemd = \<lparr>Units = []\<rparr>\<rparr>
   \<and> GenerateUserData example_lib example_backend
        \<lparr>Node_Files = [example_file], Node_Services = [], Node_Version = ''v1.20.0''\<rparr> =
       Inr \<lparr>Config_Ignition =
             \<lparr>Ignition_Config =
                \<lparr>Config_Append =
                   [\<lparr>Source = ''s3://ignition-userdata-bucket/ignition-config/k8s-v1.17.4.ign''\<rparr>],
                 Config_Replace = None\<rparr>,
              Ignition_Version = ''2.2.0''\<rparr>,
            Config_Storage =
              \<lparr>Storage_Files =
                 [\<lparr>Filesystem = ''root'', IgnFile_Path = ''/etc/foo'', Overwrite = Some True,
                   Append = False, Mode = Some 416, Contents_Source = ''data:,bar''\<rparr>]\<rparr>,
            Config_Systemd = \<lparr>Units = []\<rparr>\<rparr>"
proof -
  have parts: "validate_fatal example_lib = (\<lambda>config. None)"
    "url_hierarchical example_lib = example_url"
    "UserDataBucket example_backend = ''ignition-userdata-bucket''"
    "Backend_S3Client example_backend = (\<lambda>history c. None)"
    by (simp_all add: example_lib_def example_backend_def)
  have g: "getStorage example_lib [example_file] =
     Inr \<lparr>Storage_Files =
           [\<lparr>Filesystem = ''root'', IgnFile_Path = ''/etc/foo'', Overwrite = Some True,
             Append = False, Mode = Some 416, Contents_Source = ''data:,bar''\<rparr>]\<rparr>"
    by (simp add: example_file_def getStorage_etc_foo)
  have a: "fst (applyConfig example_lib example_backend ''uuid-0001'' ''payload'' []) =
       Inr \<lparr>Config_Ignition =
             \<lparr>Ignition_Config =
                \<lparr>Config_Append = [],
                 Config_Replace =
                   Some \<lparr>Source = ''s3://ignition-userdata-bucket/node-userdata/uuid-0001''\<rparr>\<rparr>,
              Ignition_Version = ''2.2.0''\<rparr>,
            Config_Storage = \<lparr>Storage_Files = []\<rparr>,
            Config_Systemd = \<lparr>Units = []\<rparr>\<rparr>"
    by (simp add: applyConfig_def getIgnitionBaseConfig_def IgnitionSchemaVersion_def Let_def
        userDataDirName_def URL_String_def parts example_url_def)
  have u: "GenerateUserData example_lib example_backend
        \<lparr>Node_Files = [example_file], Node_Services = [], Node_Version = ''v1.20.0''\<rparr> =
       Inr \<lparr>Config_Ignition =
             \<lparr>Ignition_Config =
                \<lparr>Config_Append =
                   [\<lparr>Source = ''s3://ignition-userdata-bucket/ignition-config/k8s-v1.17.4.ign''\<rparr>],
                 Config_Replace = None\<rparr>,
              Ignition_Version = ''2.2.0''\<rparr>,
            Config_Storage =
              \<lparr>Storage_Files =
                 [\<lparr>Filesystem = ''root'', IgnFile_Path = ''/etc/foo'', Overwrite = Some True,
                   Append = False, Mode = Some 416, Contents_Source = ''data:,bar''\<rparr>]\<rparr>,
            Config_Systemd = \<lparr>Units = []\<rparr>\<rparr>"
    by (simp add: GenerateUserData_storage g getIgnitionConfigTemplate_def
        getIgnitionBaseConfig_def getSystemd_def baseIgnitionUri_def URL_String_def mapIndex_def
        KubernetesDefaultVersion_def IgnitionSchemaVersion_def Let_def parts example_url_def)
  note w = C10_fixed_fields [of example_lib "[example_file]" _ example_backend]
  have l: "list_all (\<lambda>e. Filesystem e = ''root'' \<and> Overwrite e = Some True \<and> Append e = False)
        [\<lparr>Filesystem = ''root'', IgnFile_Path = ''/etc/foo'', Overwrite = Some True,
          Append = False, Mode = Some 416, Contents_Source = ''data:,bar''\<rparr>]"
    using conjunct1 [OF w] g by simp
  show ?thesis
    by (intro conjI g l a u)
qed

section \<open>The bucket name validator: properties\<close>

lemma validateS3BucketName_accepts:
  "validateS3BucketName L name = [] \<longleftrightarrow>
     3 \<le> length name \<and> length name \<le> 63
     \<and> (\<forall>c \<in> set name. isLowerOr1to9 c \<or> c = CHR ''.'' \<or> c = CHR ''-'')
     \<and> name \<noteq> [] \<and> isLowerOr1to9 (hd name) \<and> isLowerOr1to9 (last name)
     \<and> ParseIP L name = None"
proof (cases name rule: rev_cases)
  case Nil
  then show ?thesis
    by (simp add: validateS3BucketName_def Let_def)
next
  case (snoc cs c)
  then have l: "last name = c" and r: "rev name = c # rev cs" and n: "name \<noteq> []"
    by simp_all
  from n obtain d ds where d: "name = d # ds"
    by (cases name) simp_all
  then have h: "hd name = d"
    by simp
  show ?thesis
    unfolding validateS3BucketName_def Let_def s3BucketNotAllowedCharacters_def
      startsWithNumberOrLetter_def endsWithNumberOrLetter_def l h r list_ex_iff
    by (auto simp: d)
qed

text \<open>
  C8. The validator rejects a name that satisfies every rule of the claim as soon as it
  contains the digit 0: the character class of its regular expressions is \<open>a-z1-9\<close>.
  The name \<open>cluster-10\<close> has 10 characters, all lowercase letters, digits and a hyphen,
  begins with a letter and ends with a digit, and is no IP literal; the validator
  returns two errors for it.
\<close>

theorem C8_digit_zero_rejected:
  "validateS3BucketName L ''cluster-10'' =
     [Invalid [''spec'', ''s3bucket'', ''name''] ''cluster-10''
        ''consist only of lowercase letters, numbers, dots (.), and hyphens (-)'',
      Invalid [''spec'', ''s3bucket'', ''name''] ''cluster-10''
        ''must begin and end with a letter or number'']
   \<and> validateS3BucketName L ''cluster-11'' = []"
  by (simp add: validateS3BucketName_def Let_def s3BucketNotAllowedCharacters_def
      startsWithNumberOrLetter_def endsWithNumberOrLetter_def isLowerOr1to9_def ParseIP_def)

theorem C8_digit_zero_rejected_witness:
  "validateS3BucketName example_lib ''cluster-10'' =
     [Invalid [''spec'', ''s3bucket'', ''name''] ''cluster-10''
        ''consist only of lowercase letters, numbers, dots (.), and hyphens (-)'',
      Invalid [''spec'', ''s3bucket'', ''name''] ''cluster-10''
        ''must begin and end with a letter or number'']
   \<and> validateS3BucketName example_lib ''cluster-11'' = []"
  using C8_digit_zero_rejected [of example_lib] by simp

end
